theory Spec2Isabelle
  imports Complex_Main "HOL-Library.Log_Nat"
begin

section \<open>Python values, exceptions and the world\<close>

text \<open>
  The notebook \<^verbatim>\<open>AntiPatterns.ipynb\<close> defines three utilities: \<^verbatim>\<open>divide\<close> (its last,
  annotated definition is the one in force once the cells have run),
  \<^verbatim>\<open>read_json_file\<close> and \<^verbatim>\<open>parse_color\<close>. Python is dynamically typed, so the
  arguments range over a universe of Python values. The universe modelled here is:
  \<^verbatim>\<open>None\<close>, \<^verbatim>\<open>bool\<close>, \<^verbatim>\<open>int\<close> (unbounded), \<^verbatim>\<open>float\<close>, \<^verbatim>\<open>complex\<close>, \<^verbatim>\<open>str\<close>,
  \<^verbatim>\<open>tuple\<close>, \<^verbatim>\<open>list\<close>, \<^verbatim>\<open>dict\<close> and \<^verbatim>\<open>pathlib.Path\<close>. Objects of user-defined
  classes (which may overload any operator) and of other library types
  (\<^verbatim>\<open>Decimal\<close>, \<^verbatim>\<open>Fraction\<close>, \<^verbatim>\<open>bytes\<close>) are outside it.

  A \<^verbatim>\<open>float\<close> is an IEEE 754 binary64 value: a finite value is kept as the rational
  number it denotes, with the negative zero, the infinities and NaN apart.
  A \<^verbatim>\<open>str\<close> is a list of characters read as the code points U+0000 to U+00FF.
\<close>

datatype pyfloat = Finite rat | NegZero | PosInf | NegInf | NaN

datatype pyval =
    PyNone
  | PyBool bool
  | PyInt int
  | PyFloat pyfloat
  | PyComplex pyfloat pyfloat
  | PyStr string
  | PyTuple "pyval list"
  | PyList "pyval list"
  | PyDict "(pyval \<times> pyval) list"
  | PyPath string

text \<open>
  Exception classes. A raised exception is identified by its class; \<open>bases\<close> lists the
  class with its base classes up to \<^verbatim>\<open>Exception\<close> (its method resolution order).
  The classes are those of errors: \<^verbatim>\<open>KeyboardInterrupt\<close>, \<^verbatim>\<open>SystemExit\<close> and
  \<^verbatim>\<open>GeneratorExit\<close>, which derive from \<^verbatim>\<open>BaseException\<close> only and are not
  raised by the operations modelled here, are left out.
\<close>

datatype exc =
    Exception
  | ArithmeticError
  | ZeroDivisionError
  | OverflowError
  | TypeError
  | ValueError
  | UnicodeError
  | UnicodeDecodeError
  | JSONDecodeError
  | OSError
  | FileNotFoundError
  | PermissionError
  | IsADirectoryError
  | NotADirectoryError
  | RuntimeError
  | RecursionError
  | MemoryError

fun bases :: "exc \<Rightarrow> exc list" where
  "bases Exception = [Exception]"
| "bases ArithmeticError = [ArithmeticError, Exception]"
| "bases ZeroDivisionError = [ZeroDivisionError, ArithmeticError, Exception]"
| "bases OverflowError = [OverflowError, ArithmeticError, Exception]"
| "bases TypeError = [TypeError, Exception]"
| "bases ValueError = [ValueError, Exception]"
| "bases UnicodeError = [UnicodeError, ValueError, Exception]"
| "bases UnicodeDecodeError =
     [UnicodeDecodeError, UnicodeError, ValueError, Exception]"
| "bases JSONDecodeError = [JSONDecodeError, ValueError, Exception]"
| "bases OSError = [OSError, Exception]"
| "bases FileNotFoundError = [FileNotFoundError, OSError, Exception]"
| "bases PermissionError = [PermissionError, OSError, Exception]"
| "bases IsADirectoryError = [IsADirectoryError, OSError, Exception]"
| "bases NotADirectoryError = [NotADirectoryError, OSError, Exception]"
| "bases RuntimeError = [RuntimeError, Exception]"
| "bases RecursionError = [RecursionError, RuntimeError, Exception]"
| "bases MemoryError = [MemoryError, Exception]"

text \<open>\<open>isinstance_exc e c\<close>: an exception of class \<open>e\<close> is caught by \<^verbatim>\<open>except c\<close>.\<close>

definition isinstance_exc :: "exc \<Rightarrow> exc \<Rightarrow> bool" where
  "isinstance_exc e c = (c \<in> set (bases e))"

text \<open>
  A \<^verbatim>\<open>try\<close> statement tries its \<^verbatim>\<open>except\<close> clauses in order and runs the first
  whose class matches; \<open>None\<close> when no clause matches (the exception propagates).
\<close>

fun first_match :: "exc \<Rightarrow> (exc \<times> 'h) list \<Rightarrow> 'h option" where
  "first_match e [] = None"
| "first_match e ((c, h) # hs) = (if isinstance_exc e c then Some h else first_match e hs)"

text \<open>
  What the utilities can observe and change: the lines written by \<^verbatim>\<open>print\<close>, the
  records written by \<^verbatim>\<open>logging.error\<close>, the file objects that are open, and the file
  system. The file system gives, for each path, what opening it for reading finds.
  The path a log record carries is the text of the \<^verbatim>\<open>Path\<close> object, which is normalised.
\<close>

datatype console_line =
    Print_division_by_zero      \<comment> \<open>\<^verbatim>\<open>"Type error: division by 0."\<close>\<close>
  | Print_type_error pyval      \<comment> \<open>\<^verbatim>\<open>"Type error: division by '{0}'.".format(b)\<close>\<close>
  | Print_other_error exc       \<comment> \<open>\<^verbatim>\<open>"Error '{0}' occurred. Arguments {1}.".format(str(e), e.args)\<close>\<close>
  | Print_no_errors             \<comment> \<open>\<^verbatim>\<open>"No errors"\<close>\<close>

datatype log_record =
    Log_file_not_found string       \<comment> \<open>\<^verbatim>\<open>f"File not found: {file_path}"\<close>\<close>
  | Log_permission_denied string    \<comment> \<open>\<^verbatim>\<open>f"Permission denied accessing file: {file_path}"\<close>\<close>
  | Log_invalid_json string exc     \<comment> \<open>\<^verbatim>\<open>f"Invalid JSON format in {file_path}: {str(e)}"\<close>\<close>
  | Log_encoding_error string       \<comment> \<open>\<^verbatim>\<open>f"File encoding error in {file_path}. Expected UTF-8"\<close>\<close>
  | Log_is_directory string         \<comment> \<open>\<^verbatim>\<open>f"Path is a directory, not a file: {file_path}"\<close>\<close>
  | Log_unexpected string exc       \<comment> \<open>\<^verbatim>\<open>f"Unexpected error reading {file_path}: {str(e)}"\<close>\<close>

datatype fs_entry =
    No_entry            \<comment> \<open>a component is missing from the directory that should hold it\<close>
  | Not_a_directory     \<comment> \<open>the path runs through a regular file; nothing exists at it\<close>
  | Directory           \<comment> \<open>the path names a directory\<close>
  | Unreadable          \<comment> \<open>a file the process may not read\<close>
  | Regular string      \<comment> \<open>a readable file, with its bytes\<close>
  | Unopenable exc      \<comment> \<open>any other failure of \<^verbatim>\<open>open\<close>, with the exception it raises\<close>

text \<open>
  Two settings of the interpreter are part of the world, because building the text of a
  diagnostic depends on them: \<^verbatim>\<open>sys.get_int_max_str_digits()\<close> (4300 unless changed, 0
  for no limit), and the room the recursion limit leaves when an \<^verbatim>\<open>except\<close> clause
  runs. \<^verbatim>\<open>repr\<close> of a container then has \<open>repr_depth + 8\<close> nested calls at its disposal:
  8 is what a container of values that are not containers can take (one for the
  container, up to seven for an element), and the interpreter is taken to have room for
  the calls a utility makes on such values, as it has for the call of the utility
  itself; \<open>repr_depth\<close> is the room beyond that.
\<close>

record world =
  console :: "console_line list"
  error_log :: "log_record list"
  open_files :: "string list"
  files :: "string \<Rightarrow> fs_entry"
  int_max_str_digits :: nat
  repr_depth :: nat

definition print :: "console_line \<Rightarrow> world \<Rightarrow> world" where
  "print l w = w\<lparr>console := console w @ [l]\<rparr>"

definition logging_error :: "log_record \<Rightarrow> world \<Rightarrow> world" where
  "logging_error r w = w\<lparr>error_log := error_log w @ [r]\<rparr>"

section \<open>The text of a value\<close>

text \<open>
  \<^verbatim>\<open>"...{0}...".format(b)\<close> needs the text of \<^verbatim>\<open>b\<close>, and producing it can raise.
  The decimal text of an \<^verbatim>\<open>int\<close> with more digits than the limit raises
  \<^verbatim>\<open>ValueError\<close>: with a limit of \<open>n\<close> digits these are the \<^verbatim>\<open>int\<close>s of magnitude
  \<open>10^n\<close> or more.
\<close>

definition int_str_raises :: "nat \<Rightarrow> int \<Rightarrow> bool" where
  "int_str_raises max_digits i = (0 < max_digits \<and> 10 ^ max_digits \<le> \<bar>i\<bar>)"

fun first_raise :: "exc option list \<Rightarrow> exc option" where
  "first_raise [] = None"
| "first_raise (Some e # rs) = Some e"
| "first_raise (None # rs) = first_raise rs"

text \<open>
  \<^verbatim>\<open>repr(v)\<close> with \<open>depth\<close> nested calls left (CPython 3.11). Every call of \<^verbatim>\<open>repr\<close>
  takes one, also that of an element which is not a container, and raises
  \<^verbatim>\<open>RecursionError\<close> when none is left. \<^verbatim>\<open>repr\<close> of a \<^verbatim>\<open>Path\<close> is written in Python and
  calls on: it takes seven when the text of the path has not been computed before
  (five when it has; the model takes seven). A container renders its elements from
  left to right, a \<^verbatim>\<open>dict\<close> each key before its value, and the first element that
  raises ends it.
\<close>

fun repr_raises :: "nat \<Rightarrow> nat \<Rightarrow> pyval \<Rightarrow> exc option" where
  "repr_raises max_digits depth v =
     (if depth = 0 then Some RecursionError
      else case v of
             PyInt i \<Rightarrow> (if int_str_raises max_digits i then Some ValueError else None)
           | PyPath s \<Rightarrow> (if depth < 7 then Some RecursionError else None)
           | PyTuple vs \<Rightarrow> first_raise (map (repr_raises max_digits (depth - 1)) vs)
           | PyList vs \<Rightarrow> first_raise (map (repr_raises max_digits (depth - 1)) vs)
           | PyDict kvs \<Rightarrow>
               first_raise (map (repr_raises max_digits (depth - 1))
                                (concat (map (\<lambda>(k, x). [k, x]) kvs)))
           | _ \<Rightarrow> None)"

declare repr_raises.simps [simp del]

text \<open>
  The exception, if any, that \<^verbatim>\<open>"{0}".format(b)\<close> raises. An \<^verbatim>\<open>int\<close> is rendered
  directly; a container through \<^verbatim>\<open>repr\<close>, with \<open>repr_depth + 8\<close> nested calls; the
  text of \<^verbatim>\<open>None\<close>, a \<^verbatim>\<open>bool\<close>, a \<^verbatim>\<open>float\<close>, a \<^verbatim>\<open>complex\<close>, a \<^verbatim>\<open>str\<close> or a \<^verbatim>\<open>Path\<close> is
  always produced.
\<close>

definition format_raises :: "world \<Rightarrow> pyval \<Rightarrow> exc option" where
  "format_raises w b =
     (case b of
        PyInt i \<Rightarrow> (if int_str_raises (int_max_str_digits w) i then Some ValueError else None)
      | PyTuple vs \<Rightarrow> repr_raises (int_max_str_digits w) (repr_depth w + 8) b
      | PyList vs \<Rightarrow> repr_raises (int_max_str_digits w) (repr_depth w + 8) b
      | PyDict kvs \<Rightarrow> repr_raises (int_max_str_digits w) (repr_depth w + 8) b
      | _ \<Rightarrow> None)"

text \<open>
  The exception, if any, raised while the argument of \<^verbatim>\<open>print\<close> is built. Two lines
  are constants; the line of the \<^verbatim>\<open>TypeError\<close> clause formats \<^verbatim>\<open>b\<close>; the line of the
  last clause formats \<^verbatim>\<open>str(e)\<close> and \<^verbatim>\<open>e.args\<close>, the message of the exception and a
  tuple that holds it, which do not nest.
\<close>

fun format_line :: "world \<Rightarrow> console_line \<Rightarrow> exc option" where
  "format_line w Print_division_by_zero = None"
| "format_line w (Print_type_error b) = format_raises w b"
| "format_line w (Print_other_error e) = None"
| "format_line w Print_no_errors = None"

section \<open>parse_color\<close>

text \<open>\<^verbatim>\<open>class RGB(NamedTuple)\<close> with fields \<^verbatim>\<open>red\<close>, \<^verbatim>\<open>green\<close>, \<^verbatim>\<open>blue\<close>. The annotation
  \<^verbatim>\<open>int\<close> is not enforced at run time, so a field holds any value.\<close>

record rgb =
  red :: pyval
  green :: pyval
  blue :: pyval

definition RGB :: "pyval \<Rightarrow> pyval \<Rightarrow> pyval \<Rightarrow> rgb" where
  "RGB r g b = \<lparr>red = r, green = g, blue = b\<rparr>"

text \<open>The dictionary \<^verbatim>\<open>COLOR_NAMES\<close>.\<close>

definition COLOR_NAMES :: "(string \<times> (int \<times> int \<times> int)) list" where
  "COLOR_NAMES =
     [(''red'', (255, 0, 0)),
      (''green'', (0, 255, 0)),
      (''blue'', (0, 0, 255)),
      (''white'', (255, 255, 255)),
      (''black'', (0, 0, 0))]"

text \<open>\<^verbatim>\<open>str.lower\<close> on the code points below 256: the ASCII capitals and the Latin-1
  capitals U+00C0 to U+00DE (without the multiplication sign U+00D7) move up by 32.\<close>

definition char_lower :: "char \<Rightarrow> char" where
  "char_lower c =
     (let n = (of_char c :: nat)
      in if (65 \<le> n \<and> n \<le> 90) \<or> (192 \<le> n \<and> n \<le> 222 \<and> n \<noteq> 215)
         then char_of (n + 32) else c)"

definition str_lower :: "string \<Rightarrow> string" where
  "str_lower s = map char_lower s"

text \<open>\<^verbatim>\<open>s.lstrip(chars)\<close> drops the leading characters that occur in \<^verbatim>\<open>chars\<close>.\<close>

definition str_lstrip :: "string \<Rightarrow> string \<Rightarrow> string" where
  "str_lstrip chars s = dropWhile (\<lambda>c. c \<in> set chars) s"

text \<open>
  \<^verbatim>\<open>int(s, 16)\<close> on a string: optional white space, an optional sign, an optional prefix
  \<^verbatim>\<open>0x\<close> or \<^verbatim>\<open>0X\<close> (after which one underscore may stand), then hexadecimal digits
  with single underscores between digits, then optional white space. Anything else raises
  \<^verbatim>\<open>ValueError\<close>.
\<close>

definition is_space :: "char \<Rightarrow> bool" where
  "is_space c = ((of_char c :: nat) \<in> {9, 10, 11, 12, 13, 32, 133, 160})"

definition digit_value :: "char \<Rightarrow> int option" where
  "digit_value c =
     (let n = (of_char c :: int)
      in if 48 \<le> n \<and> n \<le> 57 then Some (n - 48)
         else if 97 \<le> n \<and> n \<le> 102 then Some (n - 87)
         else if 65 \<le> n \<and> n \<le> 70 then Some (n - 55)
         else None)"

text \<open>\<open>scan_digits s u acc\<close> reads digits and underscores; \<open>u\<close> tells that the previous
  character was an underscore. It returns the value and the unread rest.\<close>

fun scan_digits :: "string \<Rightarrow> bool \<Rightarrow> int \<Rightarrow> (int \<times> string) option" where
  "scan_digits [] u acc = (if u then None else Some (acc, []))"
| "scan_digits (c # cs) u acc =
     (if c = CHR ''_'' then (if u then None else scan_digits cs True acc)
      else case digit_value c of
             Some d \<Rightarrow> scan_digits cs False (16 * acc + d)
           | None \<Rightarrow> (if u then None else Some (acc, c # cs)))"

fun strip_sign :: "string \<Rightarrow> int \<times> string" where
  "strip_sign (c # cs) =
     (if c = CHR ''+'' then (1, cs) else if c = CHR ''-'' then (-1, cs) else (1, c # cs))"
| "strip_sign [] = (1, [])"

fun strip_hex_prefix :: "string \<Rightarrow> string" where
  "strip_hex_prefix (z # x # cs) =
     (if z = CHR ''0'' \<and> (x = CHR ''x'' \<or> x = CHR ''X'')
      then (case cs of c # cs' \<Rightarrow> (if c = CHR ''_'' then cs' else cs) | [] \<Rightarrow> cs)
      else z # x # cs)"
| "strip_hex_prefix cs = cs"

definition int_base16 :: "string \<Rightarrow> exc + int" where
  "int_base16 s =
     (let (sign, t) = strip_sign (dropWhile is_space s)
      in case strip_hex_prefix t of
           [] \<Rightarrow> Inl ValueError
         | c # cs \<Rightarrow>
             (case digit_value c of
                None \<Rightarrow> Inl ValueError
              | Some d \<Rightarrow>
                  (case scan_digits cs False d of
                     None \<Rightarrow> Inl ValueError
                   | Some (v, rest) \<Rightarrow>
                       (if list_all is_space rest then Inr (sign * v) else Inl ValueError))))"

text \<open>
  The comparisons \<^verbatim>\<open>x < n\<close> and \<^verbatim>\<open>x > n\<close> of a value with an \<^verbatim>\<open>int\<close>. A \<^verbatim>\<open>bool\<close> is
  an \<^verbatim>\<open>int\<close>; a \<^verbatim>\<open>float\<close> is compared by its exact value and NaN compares false; every
  other type raises \<^verbatim>\<open>TypeError\<close>.
\<close>

fun float_lt_int :: "pyfloat \<Rightarrow> int \<Rightarrow> bool" where
  "float_lt_int (Finite q) n = (q < of_int n)"
| "float_lt_int NegZero n = (0 < n)"
| "float_lt_int PosInf n = False"
| "float_lt_int NegInf n = True"
| "float_lt_int NaN n = False"

fun float_gt_int :: "pyfloat \<Rightarrow> int \<Rightarrow> bool" where
  "float_gt_int (Finite q) n = (of_int n < q)"
| "float_gt_int NegZero n = (n < 0)"
| "float_gt_int PosInf n = True"
| "float_gt_int NegInf n = False"
| "float_gt_int NaN n = False"

fun py_lt_int :: "pyval \<Rightarrow> int \<Rightarrow> exc + bool" where
  "py_lt_int (PyInt i) n = Inr (i < n)"
| "py_lt_int (PyBool b) n = Inr ((if b then 1 else 0) < n)"
| "py_lt_int (PyFloat f) n = Inr (float_lt_int f n)"
| "py_lt_int v n = Inl TypeError"

fun py_gt_int :: "pyval \<Rightarrow> int \<Rightarrow> exc + bool" where
  "py_gt_int (PyInt i) n = Inr (n < i)"
| "py_gt_int (PyBool b) n = Inr (n < (if b then 1 else 0))"
| "py_gt_int (PyFloat f) n = Inr (float_gt_int f n)"
| "py_gt_int v n = Inl TypeError"

text \<open>\<^verbatim>\<open>max(0, min(255, c))\<close>. \<^verbatim>\<open>min(255, c)\<close> is \<^verbatim>\<open>c\<close> when \<^verbatim>\<open>c < 255\<close> and the
  \<^verbatim>\<open>int\<close> 255 otherwise; \<^verbatim>\<open>max(0, m)\<close> is \<^verbatim>\<open>m\<close> when \<^verbatim>\<open>m > 0\<close> and the
  \<^verbatim>\<open>int\<close> 0 otherwise.\<close>

definition clamp_channel :: "pyval \<Rightarrow> exc + pyval" where
  "clamp_channel c =
     (case py_lt_int c 255 of
        Inl e \<Rightarrow> Inl e
      | Inr lt \<Rightarrow>
          (let m = (if lt then c else PyInt 255)
           in case py_gt_int m 0 of
                Inl e \<Rightarrow> Inl e
              | Inr gt \<Rightarrow> Inr (if gt then m else PyInt 0)))"

text \<open>The list comprehension \<^verbatim>\<open>[max(0, min(255, c)) for c in color]\<close>: the first
  element that raises ends it.\<close>

fun clamp_all :: "pyval list \<Rightarrow> exc + pyval list" where
  "clamp_all [] = Inr []"
| "clamp_all (c # cs) =
     (case clamp_channel c of
        Inl e \<Rightarrow> Inl e
      | Inr v \<Rightarrow> (case clamp_all cs of Inl e \<Rightarrow> Inl e | Inr vs \<Rightarrow> Inr (v # vs)))"

text \<open>The body of the \<^verbatim>\<open>try\<close> block of \<^verbatim>\<open>parse_color\<close>: \<open>Inl\<close> is a raised exception,
  \<open>Inr\<close> a \<^verbatim>\<open>return\<close>.\<close>

definition parse_color_try :: "pyval \<Rightarrow> exc + rgb" where
  "parse_color_try color =
     (case color of
        PyStr s \<Rightarrow>
          (let color = str_lower (str_lstrip ''#'' s)
           in case map_of COLOR_NAMES color of
                Some (r, g, b) \<Rightarrow> Inr (RGB (PyInt r) (PyInt g) (PyInt b))
              | None \<Rightarrow>
                  (if length color = 6 then
                     (case int_base16 (take 2 color) of
                        Inl e \<Rightarrow> Inl e
                      | Inr r \<Rightarrow>
                          (case int_base16 (take 2 (drop 2 color)) of
                             Inl e \<Rightarrow> Inl e
                           | Inr g \<Rightarrow>
                               (case int_base16 (take 2 (drop 4 color)) of
                                  Inl e \<Rightarrow> Inl e
                                | Inr b \<Rightarrow> Inr (RGB (PyInt r) (PyInt g) (PyInt b)))))
                   else Inl ValueError))
      | PyTuple cs \<Rightarrow>
          (if length cs = 3 then
             (case clamp_all cs of
                Inl e \<Rightarrow> Inl e
              | Inr [r, g, b] \<Rightarrow> Inr (RGB r g b)
              | Inr _ \<Rightarrow> Inl ValueError)
           else Inl ValueError)
      | _ \<Rightarrow> Inl ValueError)"

text \<open>
  \<^verbatim>\<open>parse_color\<close>: the single clause \<^verbatim>\<open>except Exception\<close> returns black and writes
  nothing. The function neither prints nor logs, so the world is returned as it was.
\<close>

definition parse_color :: "pyval \<Rightarrow> world \<Rightarrow> (exc + rgb) \<times> world" where
  "parse_color color w =
     (case parse_color_try color of
        Inr c \<Rightarrow> (Inr c, w)
      | Inl e \<Rightarrow>
          (case first_match e [(Exception, RGB (PyInt 0) (PyInt 0) (PyInt 0))] of
             Some black \<Rightarrow> (Inr black, w)
           | None \<Rightarrow> (Inl e, w)))"

section \<open>Floating-point division\<close>

text \<open>
  Rounding to binary64, to nearest with ties to even. For \<open>2^e \<le> |q| < 2^(e+1)\<close> the
  representable values around \<open>q\<close> are the multiples of \<open>2^(max e (-1022) - 52)\<close>
  (53 significant bits; below \<open>2^(-1022)\<close> the spacing of the subnormal numbers).
  \<open>to_binary64\<close> leaves the upper bound of the exponent to its callers, which raise or
  return an infinity when the rounded value reaches \<open>2^1024\<close>.
\<close>

definition round_half_even :: "rat \<Rightarrow> int" where
  "round_half_even x =
     (let f = \<lfloor>x\<rfloor>; d = x - of_int f
      in if d < 1 / 2 then f else if 1 / 2 < d then f + 1 else if even f then f else f + 1)"

definition ilog2 :: "rat \<Rightarrow> int" where
  "ilog2 q =
     (let (n, d) = quotient_of q; k = bitlen n - bitlen d
      in if 2 powi k \<le> q then k else k - 1)"

definition to_binary64 :: "rat \<Rightarrow> rat" where
  "to_binary64 q =
     (if q = 0 then 0
      else let p = max (ilog2 \<bar>q\<bar>) (- 1022) - 52
           in of_int (round_half_even (q / 2 powi p)) * 2 powi p)"

definition overflows :: "rat \<Rightarrow> bool" where
  "overflows r = (2 ^ 1024 \<le> \<bar>r\<bar>)"

definition signed_zero :: "bool \<Rightarrow> pyfloat" where
  "signed_zero neg = (if neg then NegZero else Finite 0)"

definition signed_inf :: "bool \<Rightarrow> pyfloat" where
  "signed_inf neg = (if neg then NegInf else PosInf)"

text \<open>
  \<^verbatim>\<open>int / int\<close>: \<^verbatim>\<open>ZeroDivisionError\<close> for a zero divisor, else the correctly rounded
  quotient, \<^verbatim>\<open>OverflowError\<close> when it is too large for a float. A zero result has the
  sign of the quotient (\<^verbatim>\<open>0 / -1\<close> is \<^verbatim>\<open>-0.0\<close>).
\<close>

definition int_truediv :: "int \<Rightarrow> int \<Rightarrow> exc + pyfloat" where
  "int_truediv x y =
     (if y = 0 then Inl ZeroDivisionError
      else let r = to_binary64 (of_int x / of_int y)
           in if overflows r then Inl OverflowError
              else if r = 0 then Inr (signed_zero ((x < 0) \<noteq> (y < 0)))
              else Inr (Finite r))"

text \<open>The conversion of an \<^verbatim>\<open>int\<close> operand to \<^verbatim>\<open>float\<close> in mixed arithmetic.\<close>

definition float_of_int :: "int \<Rightarrow> exc + pyfloat" where
  "float_of_int x =
     (let r = to_binary64 (of_int x)
      in if overflows r then Inl OverflowError else Inr (Finite r))"

fun is_zero :: "pyfloat \<Rightarrow> bool" where
  "is_zero (Finite q) = (q = 0)"
| "is_zero NegZero = True"
| "is_zero f = False"

fun is_negative :: "pyfloat \<Rightarrow> bool" where
  "is_negative (Finite q) = (q < 0)"
| "is_negative NegZero = True"
| "is_negative NegInf = True"
| "is_negative f = False"

fun is_inf :: "pyfloat \<Rightarrow> bool" where
  "is_inf PosInf = True"
| "is_inf NegInf = True"
| "is_inf f = False"

fun float_value :: "pyfloat \<Rightarrow> rat" where
  "float_value (Finite q) = q"
| "float_value f = 0"

text \<open>IEEE 754 division by a divisor that is not zero.\<close>

definition ieee_div :: "pyfloat \<Rightarrow> pyfloat \<Rightarrow> pyfloat" where
  "ieee_div f g =
     (let neg = (is_negative f \<noteq> is_negative g)
      in if f = NaN \<or> g = NaN then NaN
         else if is_inf f then (if is_inf g then NaN else signed_inf neg)
         else if is_inf g then signed_zero neg
         else let r = to_binary64 (float_value f / float_value g)
              in if overflows r then signed_inf neg
                 else if r = 0 then signed_zero neg
                 else Finite r)"

text \<open>\<^verbatim>\<open>float / float\<close>: Python raises \<^verbatim>\<open>ZeroDivisionError\<close> for a divisor that
  equals zero (of either sign), before dividing.\<close>

definition float_div :: "pyfloat \<Rightarrow> pyfloat \<Rightarrow> exc + pyfloat" where
  "float_div f g = (if is_zero g then Inl ZeroDivisionError else Inr (ieee_div f g))"

text \<open>The numbers of the universe; a \<^verbatim>\<open>bool\<close> is the \<^verbatim>\<open>int\<close> 0 or 1.\<close>

datatype number = NInt int | NFloat pyfloat | NComplex pyfloat pyfloat

fun as_number :: "pyval \<Rightarrow> number option" where
  "as_number (PyBool b) = Some (NInt (if b then 1 else 0))"
| "as_number (PyInt i) = Some (NInt i)"
| "as_number (PyFloat f) = Some (NFloat f)"
| "as_number (PyComplex re im) = Some (NComplex re im)"
| "as_number v = None"

text \<open>
  \<^verbatim>\<open>float(x / y)\<close> on two numbers. In mixed arithmetic an \<^verbatim>\<open>int\<close> operand is
  converted first, which may raise \<^verbatim>\<open>OverflowError\<close>; then a zero divisor raises
  \<^verbatim>\<open>ZeroDivisionError\<close>. When an operand is \<^verbatim>\<open>complex\<close> the quotient is
  \<^verbatim>\<open>complex\<close>, and \<^verbatim>\<open>float\<close> raises \<^verbatim>\<open>TypeError\<close> on it.
\<close>

fun complex_then_float :: "bool \<Rightarrow> exc + pyfloat" where
  "complex_then_float divisor_is_zero =
     (if divisor_is_zero then Inl ZeroDivisionError else Inl TypeError)"

fun number_quotient :: "number \<Rightarrow> number \<Rightarrow> exc + pyfloat" where
  "number_quotient (NInt x) (NInt y) = int_truediv x y"
| "number_quotient (NInt x) (NFloat g) =
     (case float_of_int x of Inl e \<Rightarrow> Inl e | Inr f \<Rightarrow> float_div f g)"
| "number_quotient (NFloat f) (NInt y) =
     (case float_of_int y of Inl e \<Rightarrow> Inl e | Inr g \<Rightarrow> float_div f g)"
| "number_quotient (NFloat f) (NFloat g) = float_div f g"
| "number_quotient (NInt x) (NComplex re im) =
     (case float_of_int x of
        Inl e \<Rightarrow> Inl e
      | Inr f \<Rightarrow> complex_then_float (is_zero re \<and> is_zero im))"
| "number_quotient (NFloat f) (NComplex re im) = complex_then_float (is_zero re \<and> is_zero im)"
| "number_quotient (NComplex re im) (NInt y) =
     (case float_of_int y of Inl e \<Rightarrow> Inl e | Inr g \<Rightarrow> complex_then_float (is_zero g))"
| "number_quotient (NComplex re im) (NFloat g) = complex_then_float (is_zero g)"
| "number_quotient (NComplex re im) (NComplex re' im') =
     complex_then_float (is_zero re' \<and> is_zero im')"

text \<open>
  \<^verbatim>\<open>float(a / b)\<close> on any two values. When an operand is not a number the expression
  raises \<^verbatim>\<open>TypeError\<close>: from \<^verbatim>\<open>/\<close>, or, when \<^verbatim>\<open>/\<close> joins a \<^verbatim>\<open>Path\<close> with a
  \<^verbatim>\<open>str\<close> or a \<^verbatim>\<open>Path\<close>, from \<^verbatim>\<open>float\<close> applied to the resulting \<^verbatim>\<open>Path\<close>.
\<close>

definition float_quotient :: "pyval \<Rightarrow> pyval \<Rightarrow> exc + pyfloat" where
  "float_quotient a b =
     (case (as_number a, as_number b) of
        (Some x, Some y) \<Rightarrow> number_quotient x y
      | _ \<Rightarrow> Inl TypeError)"

section \<open>divide\<close>

text \<open>The \<^verbatim>\<open>except\<close> clauses of \<^verbatim>\<open>divide\<close>, in the order of the source, each with the
  line it builds and prints (\<open>format_line\<close> tells whether building it raises).\<close>

definition divide_handlers :: "pyval \<Rightarrow> exc \<Rightarrow> (exc \<times> console_line) list" where
  "divide_handlers b e =
     [(ZeroDivisionError, Print_division_by_zero),
      (TypeError, Print_type_error b),
      (Exception, Print_other_error e)]"

text \<open>The \<^verbatim>\<open>finally\<close> clause: \<^verbatim>\<open>if result is None: result = 0\<close>.\<close>

definition finally_default :: "pyval \<Rightarrow> pyval" where
  "finally_default result = (if result = PyNone then PyInt 0 else result)"

text \<open>
  \<^verbatim>\<open>divide\<close>. The clause that matches first builds its line and prints it. When building
  the line raises, nothing is printed and, after the \<^verbatim>\<open>finally\<close> clause, that exception
  leaves the function: \<^verbatim>\<open>return result\<close> is not reached.
\<close>

definition divide :: "pyval \<Rightarrow> pyval \<Rightarrow> world \<Rightarrow> (exc + pyval) \<times> world" where
  "divide a b w =
     (let result = PyNone
      in case float_quotient a b of
           Inr f \<Rightarrow> (Inr (finally_default (PyFloat f)), print Print_no_errors w)
         | Inl e \<Rightarrow>
             (case first_match e (divide_handlers b e) of
                Some line \<Rightarrow>
                  (case format_line w line of
                     Some e' \<Rightarrow> (Inl e', w)
                   | None \<Rightarrow> (Inr (finally_default result), print line w))
              | None \<Rightarrow> (Inl e, w)))"

section \<open>read_json_file\<close>

text \<open>
  \<^verbatim>\<open>Path(s)\<close> on a POSIX system keeps a normalised path: a root \<^verbatim>\<open>/\<close> (or \<^verbatim>\<open>//\<close> for
  exactly two leading slashes), then the components between slashes that are neither
  empty nor \<^verbatim>\<open>.\<close>; \<^verbatim>\<open>..\<close> is kept. Its text joins them again, and is \<^verbatim>\<open>.\<close> when
  nothing is left. That text is what \<^verbatim>\<open>open\<close> receives and what the records show.
\<close>

fun split_sep :: "char \<Rightarrow> string \<Rightarrow> string list" where
  "split_sep sep [] = [[]]"
| "split_sep sep (c # cs) =
     (if c = sep then [] # split_sep sep cs
      else case split_sep sep cs of
             x # xs \<Rightarrow> (c # x) # xs
           | [] \<Rightarrow> [[c]])"

fun join_sep :: "string \<Rightarrow> string list \<Rightarrow> string" where
  "join_sep sep [] = []"
| "join_sep sep [x] = x"
| "join_sep sep (x # y # ys) = x @ sep @ join_sep sep (y # ys)"

definition splitroot :: "string \<Rightarrow> string \<times> string" where
  "splitroot part =
     (let stripped = dropWhile (\<lambda>c. c = CHR ''/'') part;
          n = length part - length stripped
      in if n = 0 then ([], part)
         else if n = 2 then (''//'', stripped)
         else (''/'', stripped))"

definition path_str :: "string \<Rightarrow> string" where
  "path_str s =
     (let (root, rel) = splitroot s;
          parts = filter (\<lambda>x. x \<noteq> [] \<and> x \<noteq> ''.'') (split_sep (CHR ''/'') rel);
          text = root @ join_sep ''/'' parts
      in if text = [] then ''.'' else text)"

text \<open>\<^verbatim>\<open>Path(file_path)\<close> accepts a \<^verbatim>\<open>str\<close> or a \<^verbatim>\<open>Path\<close> and raises \<^verbatim>\<open>TypeError\<close> on
  every other value of the universe. The result is given by its text.\<close>

fun to_path :: "pyval \<Rightarrow> exc + string" where
  "to_path (PyStr s) = Inr (path_str s)"
| "to_path (PyPath s) = Inr (path_str s)"
| "to_path v = Inl TypeError"

text \<open>\<^verbatim>\<open>path.open('r', encoding='utf-8')\<close>: on success the file object is open.\<close>

definition open_file :: "string \<Rightarrow> world \<Rightarrow> (exc + string) \<times> world" where
  "open_file p w =
     (case files w p of
        No_entry \<Rightarrow> (Inl FileNotFoundError, w)
      | Not_a_directory \<Rightarrow> (Inl NotADirectoryError, w)
      | Directory \<Rightarrow> (Inl IsADirectoryError, w)
      | Unreadable \<Rightarrow> (Inl PermissionError, w)
      | Unopenable e \<Rightarrow> (Inl e, w)
      | Regular bytes \<Rightarrow> (Inr bytes, w\<lparr>open_files := p # open_files w\<rparr>))"

definition close_file :: "string \<Rightarrow> world \<Rightarrow> world" where
  "close_file p w = w\<lparr>open_files := remove1 p (open_files w)\<rparr>"

text \<open>
  \<^verbatim>\<open>with path.open(...) as file: body\<close>. When \<^verbatim>\<open>open\<close> raises, the body does not run.
  Otherwise the file is closed when the body ends, by a normal exit or by an exception,
  and the exception then goes on.
\<close>

definition with_open ::
  "string \<Rightarrow> (string \<Rightarrow> world \<Rightarrow> (exc + 'a) \<times> world) \<Rightarrow> world \<Rightarrow> (exc + 'a) \<times> world" where
  "with_open p body w =
     (case open_file p w of
        (Inl e, w1) \<Rightarrow> (Inl e, w1)
      | (Inr file, w1) \<Rightarrow> (let (r, w2) = body file w1 in (r, close_file p w2)))"

text \<open>The \<^verbatim>\<open>except\<close> clauses of \<^verbatim>\<open>read_json_file\<close>, in the order of the source, each
  with the record it logs.\<close>

definition read_handlers :: "string \<Rightarrow> exc \<Rightarrow> (exc \<times> log_record) list" where
  "read_handlers file_path e =
     [(FileNotFoundError, Log_file_not_found file_path),
      (PermissionError, Log_permission_denied file_path),
      (JSONDecodeError, Log_invalid_json file_path e),
      (UnicodeDecodeError, Log_encoding_error file_path),
      (IsADirectoryError, Log_is_directory file_path),
      (Exception, Log_unexpected file_path e)]"

text \<open>
  \<^verbatim>\<open>read_json_file\<close>. The decoder \<^verbatim>\<open>json.load\<close> is library code: it is the parameter
  \<open>json_load\<close>, which reads the bytes of the open file and returns the decoded value or
  raises. \<^verbatim>\<open>Path(file_path)\<close> is evaluated before the \<^verbatim>\<open>try\<close> statement.
\<close>

definition read_json_try ::
  "(string \<Rightarrow> exc + pyval) \<Rightarrow> string \<Rightarrow> world \<Rightarrow> (exc + pyval) \<times> world" where
  "read_json_try json_load file_path w =
     with_open file_path (\<lambda>file w'. (json_load file, w')) w"

definition read_json_file ::
  "(string \<Rightarrow> exc + pyval) \<Rightarrow> pyval \<Rightarrow> world \<Rightarrow> (exc + pyval) \<times> world" where
  "read_json_file json_load file_path w =
     (case to_path file_path of
        Inl e \<Rightarrow> (Inl e, w)
      | Inr file_path \<Rightarrow>
          (let result = PyDict []
           in case read_json_try json_load file_path w of
                (Inr v, w1) \<Rightarrow> (Inr v, w1)
              | (Inl e, w1) \<Rightarrow>
                  (case first_match e (read_handlers file_path e) of
                     Some r \<Rightarrow> (Inr result, logging_error r w1)
                   | None \<Rightarrow> (Inl e, w1))))"

text \<open>
  The cell the notebook shows as the anti-pattern, for contrast: the file is opened
  without \<^verbatim>\<open>with\<close>, \<^verbatim>\<open>1 / 0\<close> raises, and \<^verbatim>\<open>f.close()\<close> is never reached.
\<close>

definition read_without_with :: "string \<Rightarrow> world \<Rightarrow> (exc + unit) \<times> world" where
  "read_without_with p w =
     (case open_file p w of
        (Inl e, w1) \<Rightarrow> (Inl e, w1)
      | (Inr content, w1) \<Rightarrow>
          (case int_truediv 1 0 of
             Inl e \<Rightarrow> (Inl e, w1)
           | Inr x \<Rightarrow> (Inr (), close_file p w1)))"

section \<open>Notions of the specification\<close>

text \<open>\<^verbatim>\<open>isinstance(v, numbers.Number)\<close> on the universe.\<close>

fun numeric :: "pyval \<Rightarrow> bool" where
  "numeric (PyBool b) = True"
| "numeric (PyInt i) = True"
| "numeric (PyFloat f) = True"
| "numeric (PyComplex re im) = True"
| "numeric v = False"

text \<open>No file of any kind exists at the path: a component is missing, or the path runs
  through a regular file.\<close>

fun nothing_exists :: "fs_entry \<Rightarrow> bool" where
  "nothing_exists No_entry = True"
| "nothing_exists Not_a_directory = True"
| "nothing_exists entry = False"

text \<open>A mapping is a \<^verbatim>\<open>dict\<close>.\<close>

fun is_mapping :: "pyval \<Rightarrow> bool" where
  "is_mapping (PyDict kvs) = True"
| "is_mapping v = False"

text \<open>The failure categories of the specification, the category each diagnostic names,
  and the specification's ordered classification of a failure: the most specific
  categories are checked first and the catch-all category last.\<close>

datatype category =
    Divide_by_zero
  | Type_mismatch
  | Resource_not_found
  | Permission_denied
  | Decode_error
  | Encoding_error
  | Path_is_not_a_file
  | Unexpected_error

fun line_category :: "console_line \<Rightarrow> category option" where
  "line_category Print_division_by_zero = Some Divide_by_zero"
| "line_category (Print_type_error b) = Some Type_mismatch"
| "line_category (Print_other_error e) = Some Unexpected_error"
| "line_category Print_no_errors = None"

fun record_category :: "log_record \<Rightarrow> category" where
  "record_category (Log_file_not_found p) = Resource_not_found"
| "record_category (Log_permission_denied p) = Permission_denied"
| "record_category (Log_invalid_json p e) = Decode_error"
| "record_category (Log_encoding_error p) = Encoding_error"
| "record_category (Log_is_directory p) = Path_is_not_a_file"
| "record_category (Log_unexpected p e) = Unexpected_error"

definition spec_divide_category :: "exc \<Rightarrow> category" where
  "spec_divide_category e =
     (if isinstance_exc e ZeroDivisionError then Divide_by_zero
      else if isinstance_exc e TypeError then Type_mismatch
      else Unexpected_error)"

definition spec_read_category :: "exc \<Rightarrow> category" where
  "spec_read_category e =
     (if isinstance_exc e FileNotFoundError then Resource_not_found
      else if isinstance_exc e PermissionError then Permission_denied
      else if isinstance_exc e JSONDecodeError then Decode_error
      else if isinstance_exc e UnicodeDecodeError then Encoding_error
      else if isinstance_exc e IsADirectoryError then Path_is_not_a_file
      else Unexpected_error)"

text \<open>The number of diagnostics written between two worlds.\<close>

definition emitted :: "world \<Rightarrow> world \<Rightarrow> nat" where
  "emitted w w' =
     (length (console w') - length (console w)) + (length (error_log w') - length (error_log w))"

text \<open>
  Floating-point tolerance: the float is finite and differs from the exact value \<open>q\<close> by
  at most half a unit in the last place, that is by \<open>|q| / 2^53\<close>, or by \<open>2^(-1075)\<close>
  where \<open>q\<close> is below the normal range.
\<close>

fun is_finite :: "pyfloat \<Rightarrow> bool" where
  "is_finite (Finite r) = True"
| "is_finite NegZero = True"
| "is_finite f = False"

definition within_tolerance :: "pyfloat \<Rightarrow> rat \<Rightarrow> bool" where
  "within_tolerance f q =
     (is_finite f \<and> \<bar>float_value f - q\<bar> \<le> max (\<bar>q\<bar> / 2 ^ 53) (1 / 2 ^ 1075))"

text \<open>
  The exact value of a real operand: a \<^verbatim>\<open>bool\<close>, an \<^verbatim>\<open>int\<close> or a finite \<^verbatim>\<open>float\<close>.
  In mixed arithmetic the \<^verbatim>\<open>int\<close> operand is converted to \<^verbatim>\<open>float\<close> before the
  division; \<open>exact_operands\<close> says that this conversion does not round, which holds for
  every \<^verbatim>\<open>int\<close> of magnitude at most \<open>2^53\<close>.
\<close>

fun number_value :: "number \<Rightarrow> rat option" where
  "number_value (NInt i) = Some (of_int i)"
| "number_value (NFloat f) = (if is_finite f then Some (float_value f) else None)"
| "number_value (NComplex re im) = None"

definition real_value :: "pyval \<Rightarrow> rat option" where
  "real_value v = (case as_number v of Some n \<Rightarrow> number_value n | None \<Rightarrow> None)"

fun exact_numbers :: "number \<Rightarrow> number \<Rightarrow> bool" where
  "exact_numbers (NInt x) (NFloat g) = (\<bar>x\<bar> \<le> 2 ^ 53)"
| "exact_numbers (NFloat f) (NInt y) = (\<bar>y\<bar> \<le> 2 ^ 53)"
| "exact_numbers m n = True"

definition exact_operands :: "pyval \<Rightarrow> pyval \<Rightarrow> bool" where
  "exact_operands a b =
     (case (as_number a, as_number b) of
        (Some m, Some n) \<Rightarrow> exact_numbers m n
      | _ \<Rightarrow> True)"

text \<open>A channel value in the range 0 to 255.\<close>

fun in_channel_range :: "pyval \<Rightarrow> bool" where
  "in_channel_range (PyInt i) = (0 \<le> i \<and> i \<le> 255)"
| "in_channel_range (PyBool b) = True"
| "in_channel_range (PyFloat (Finite q)) = (0 \<le> q \<and> q \<le> 255)"
| "in_channel_range (PyFloat NegZero) = True"
| "in_channel_range v = False"

text \<open>A world and a decoder for the examples: one file \<^verbatim>\<open>data.json\<close> holding a JSON
  array, one directory, nothing printed or logged, no file open, and the interpreter's
  default limit of 4300 digits.\<close>

definition example_world :: world where
  "example_world =
     \<lparr>console = [], error_log = [], open_files = [],
      files = (\<lambda>p. if p = ''data.json'' then Regular ''[1, 2]''
                    else if p = ''data.json/x'' then Not_a_directory
                    else if p = ''configs'' then Directory
                    else No_entry),
      int_max_str_digits = 4300,
      repr_depth = 990\<rparr>"

definition example_json_load :: "string \<Rightarrow> exc + pyval" where
  "example_json_load bytes =
     (if bytes = ''[1, 2]'' then Inr (PyList [PyInt 1, PyInt 2]) else Inl JSONDecodeError)"

section \<open>Properties\<close>

subsection \<open>Exception matching\<close>

lemma exception_catches_all: "isinstance_exc e Exception"
  by (cases e) (simp_all add: isinstance_exc_def)


lemma as_number_None: "\<not> numeric b \<Longrightarrow> as_number b = None"
  by (cases b) simp_all

subsection \<open>The exceptions each \<^verbatim>\<open>try\<close> block can raise\<close>

lemma int_truediv_raises:
  "int_truediv x y = Inl e \<Longrightarrow> e = ZeroDivisionError \<or> e = OverflowError"
  by (auto simp: int_truediv_def Let_def split: if_splits)

lemma float_of_int_raises: "float_of_int x = Inl e \<Longrightarrow> e = OverflowError"
  by (auto simp: float_of_int_def Let_def split: if_splits)

lemma float_div_raises: "float_div f g = Inl e \<Longrightarrow> e = ZeroDivisionError"
  by (auto simp: float_div_def split: if_splits)

lemma number_quotient_raises:
  "number_quotient x y = Inl e \<Longrightarrow> e = ZeroDivisionError \<or> e = OverflowError \<or> e = TypeError"
  by (cases x; cases y)
     (auto dest: int_truediv_raises float_of_int_raises float_div_raises
           split: sum.splits if_splits)

lemma float_quotient_raises:
  "float_quotient a b = Inl e \<Longrightarrow> e = ZeroDivisionError \<or> e = OverflowError \<or> e = TypeError"
  by (auto simp: float_quotient_def dest: number_quotient_raises split: option.splits)


lemma divide_overflow:
  assumes "float_quotient a b = Inl OverflowError"
  shows "divide a b w = (Inr (PyInt 0), print (Print_other_error OverflowError) w)"
  using assms
  by (simp add: divide_def divide_handlers_def isinstance_exc_def finally_default_def)

lemma divide_type_error:
  assumes "float_quotient a b = Inl TypeError" and "format_raises w b = None"
  shows "divide a b w = (Inr (PyInt 0), print (Print_type_error b) w)"
  using assms
  by (simp add: divide_def divide_handlers_def isinstance_exc_def finally_default_def)

lemma divide_clause_raises:
  assumes "float_quotient a b = Inl TypeError" and "format_raises w b = Some e'"
  shows "divide a b w = (Inl e', w)"
  using assms
  by (simp add: divide_def divide_handlers_def isinstance_exc_def finally_default_def)


lemma format_raises_flat:
  "format_raises w PyNone = None" "format_raises w (PyBool t) = None"
  "format_raises w (PyFloat f) = None" "format_raises w (PyComplex re im) = None"
  "format_raises w (PyStr s) = None" "format_raises w (PyPath s) = None"
  by (simp_all add: format_raises_def)

lemma divide_success:
  assumes "float_quotient a b = Inr f"
  shows "divide a b w = (Inr (PyFloat f), print Print_no_errors w)"
  using assms by (simp add: divide_def finally_default_def)

lemma int_base16_raises: "int_base16 s = Inl e \<Longrightarrow> e = ValueError"
  by (auto simp: int_base16_def Let_def split: prod.splits list.splits option.splits if_splits)

lemma clamp_channel_raises: "clamp_channel c = Inl e \<Longrightarrow> e = TypeError"
  by (cases c) (auto simp: clamp_channel_def Let_def split: sum.splits if_splits)

lemma clamp_all_raises: "clamp_all cs = Inl e \<Longrightarrow> e = TypeError"
  by (induction cs) (auto dest: clamp_channel_raises split: sum.splits)

lemma parse_color_try_raises:
  "parse_color_try c = Inl e \<Longrightarrow> e = ValueError \<or> e = TypeError"
  by (cases c)
     (auto simp: parse_color_try_def Let_def dest: int_base16_raises clamp_all_raises
           split: option.splits sum.splits if_splits list.splits prod.splits)

lemma parse_color_failure:
  assumes "parse_color_try c = Inl e"
  shows "parse_color c w = (Inr (RGB (PyInt 0) (PyInt 0) (PyInt 0)), w)"
  using parse_color_try_raises [OF assms] assms
  by (auto simp: parse_color_def isinstance_exc_def)

lemma parse_color_success:
  assumes "parse_color_try c = Inr v"
  shows "parse_color c w = (Inr v, w)"
  using assms by (simp add: parse_color_def)

lemma parse_color_world: "snd (parse_color c w) = w"
  by (cases "parse_color_try c")
     (auto simp: parse_color_def parse_color_failure split: sum.splits option.splits)

subsection \<open>The \<^verbatim>\<open>with\<close> block of \<^verbatim>\<open>read_json_file\<close>\<close>

lemma close_after_open:
  "close_file p (w\<lparr>open_files := p # open_files w\<rparr>) = w"
  by (simp add: close_file_def)

lemma read_json_try_world: "snd (read_json_try json_load p w) = w"
  by (cases "files w p")
     (simp_all add: read_json_try_def with_open_def open_file_def close_after_open)

lemma read_json_try_cases:
  "fst (read_json_try json_load p w) =
     (case files w p of
        No_entry \<Rightarrow> Inl FileNotFoundError
      | Not_a_directory \<Rightarrow> Inl NotADirectoryError
      | Directory \<Rightarrow> Inl IsADirectoryError
      | Unreadable \<Rightarrow> Inl PermissionError
      | Regular bytes \<Rightarrow> json_load bytes
      | Unopenable e \<Rightarrow> Inl e)"
  by (cases "files w p") (simp_all add: read_json_try_def with_open_def open_file_def)


lemma read_json_file_failure:
  assumes "to_path file_path = Inr p" and "fst (read_json_try json_load p w) = Inl e"
  shows "read_json_file json_load file_path w =
     (Inr (PyDict []), logging_error (the (first_match e (read_handlers p e))) w)"
proof -
  have "read_json_try json_load p w = (Inl e, w)"
    using assms(2) read_json_try_world [of json_load p w] by (metis prod.collapse)
  then show ?thesis
    using assms(1) exception_catches_all [of e]
    by (simp add: read_json_file_def read_handlers_def)
qed

lemma read_json_file_success:
  assumes "to_path file_path = Inr p" and "fst (read_json_try json_load p w) = Inr v"
  shows "read_json_file json_load file_path w = (Inr v, w)"
proof -
  have "read_json_try json_load p w = (Inr v, w)"
    using assms(2) read_json_try_world [of json_load p w] by (metis prod.collapse)
  then show ?thesis
    using assms(1) by (simp add: read_json_file_def)
qed

lemma read_handlers_category:
  "first_match e (read_handlers p e) = Some r \<Longrightarrow> record_category r = spec_read_category e"
  by (auto simp: read_handlers_def spec_read_category_def split: if_splits)

lemma read_handlers_total: "\<exists>r. first_match e (read_handlers p e) = Some r"
  using exception_catches_all [of e] by (simp add: read_handlers_def)

lemma divide_handlers_category:
  "first_match e (divide_handlers b e) = Some l \<Longrightarrow> line_category l = Some (spec_divide_category e)"
  by (auto simp: divide_handlers_def spec_divide_category_def split: if_splits)

lemma divide_handlers_total: "\<exists>l. first_match e (divide_handlers b e) = Some l"
  using exception_catches_all [of e] by (simp add: divide_handlers_def)

lemma emitted_print: "emitted w (print l w) = 1"
  by (simp add: emitted_def print_def)

lemma emitted_logging_error: "emitted w (logging_error r w) = 1"
  by (simp add: emitted_def logging_error_def)

lemma path_str_examples:
  "path_str ''nonexistent.json'' = ''nonexistent.json''"
  "path_str ''./nonexistent.json'' = ''nonexistent.json''"
  "path_str ''data.json'' = ''data.json''"
  "path_str ''data.json/x'' = ''data.json/x''"
  "path_str ''data.json//x'' = ''data.json/x''"
  "path_str ''configs'' = ''configs''"
  "path_str ''a//b/./c/'' = ''a/b/c''"
  "path_str [] = ''.''"
  "path_str ''//a'' = ''//a''"
  "path_str ''///a/..'' = ''/a/..''"
  by code_simp+

lemma open_file_holds_file:
  "files w p = Regular bytes \<Longrightarrow>
     open_file p w = (Inr bytes, w\<lparr>open_files := p # open_files w\<rparr>)"
  by (simp add: open_file_def)

lemma read_without_with_leaks:
  "files w p = Regular bytes \<Longrightarrow> open_files (snd (read_without_with p w)) = p # open_files w"
  by (simp add: read_without_with_def open_file_def int_truediv_def)

subsection \<open>Rounding to binary64\<close>

text \<open>
  \<open>ilog2\<close> is the binary exponent, the rounded value is within half a unit in the last
  place of the exact one, and it reaches \<open>2^1024\<close> exactly when the exact value is at
  least \<open>2^1024 - 2^970\<close>, the midpoint above the largest finite float.
\<close>

lemma round_half_even_error: "\<bar>of_int (round_half_even x) - x\<bar> \<le> 1 / 2"
proof -
  have "of_int \<lfloor>x\<rfloor> \<le> x" and "x < of_int \<lfloor>x\<rfloor> + 1"
    by linarith+
  then show ?thesis
    by (auto simp: round_half_even_def Let_def)
qed

lemma round_half_even_ge_floor: "\<lfloor>x\<rfloor> \<le> round_half_even x"
  by (auto simp: round_half_even_def Let_def)

lemma round_half_even_of_int: "round_half_even (of_int n) = n"
  by (simp add: round_half_even_def)

lemma round_half_even_minus: "round_half_even (- x) = - round_half_even x"
proof (cases "x = of_int \<lfloor>x\<rfloor>")
  case True
  then obtain n where "x = of_int n" ..
  then show ?thesis
    using round_half_even_of_int [of n] round_half_even_of_int [of "- n"] by simp
next
  case False
  have b: "of_int \<lfloor>x\<rfloor> \<le> x" "x < of_int \<lfloor>x\<rfloor> + 1"
    by linarith+
  with False have lt: "of_int \<lfloor>x\<rfloor> < x" by linarith
  have fl: "\<lfloor>- x\<rfloor> = - \<lfloor>x\<rfloor> - 1"
    using lt b(2) by (intro floor_unique) auto
  show ?thesis
    unfolding round_half_even_def Let_def fl
    using lt b(2) by (auto simp: algebra_simps)
qed

lemma int_bitlen_bounds:
  assumes "0 < (n::int)"
  shows "(2::rat) powi (bitlen n - 1) \<le> of_int n" and "of_int n < (2::rat) powi (bitlen n)"
proof -
  have b: "2 ^ nat (bitlen n - 1) \<le> n" "n < 2 ^ nat (bitlen n)"
    using bitlen_bounds [OF assms] by simp_all
  have ge: "1 \<le> bitlen n"
    using assms by (simp add: bitlen_alt_def)
  have "(2::rat) powi (bitlen n - 1) = of_int (2 ^ nat (bitlen n - 1))"
    using ge by (simp add: power_int_def)
  also have "\<dots> \<le> of_int n"
    using b(1) by (simp only: of_int_le_iff)
  finally show "(2::rat) powi (bitlen n - 1) \<le> of_int n" .
  have "(of_int n :: rat) < of_int (2 ^ nat (bitlen n))"
    using b(2) by (simp only: of_int_less_iff)
  also have "\<dots> = (2::rat) powi (bitlen n)"
    using ge by (simp add: power_int_def)
  finally show "of_int n < (2::rat) powi (bitlen n)" .
qed

lemma ilog2_bounds:
  assumes "0 < q"
  shows "2 powi (ilog2 q) \<le> q" and "q < 2 powi (ilog2 q + 1)"
proof -
  obtain n d where nd: "quotient_of q = (n, d)"
    by (cases "quotient_of q")
  have d: "0 < d" using nd by (rule quotient_of_denom_pos)
  have q: "q = of_int n / of_int d" using nd by (rule quotient_of_div)
  have n: "0 < n"
    using assms d unfolding q by (simp add: zero_less_divide_iff)
  define k where "k = bitlen n - bitlen d"
  have bn: "(2::rat) powi (bitlen n - 1) \<le> of_int n" "of_int n < (2::rat) powi (bitlen n)"
    and bd: "(2::rat) powi (bitlen d - 1) \<le> of_int d" "of_int d < (2::rat) powi (bitlen d)"
    using int_bitlen_bounds [OF n] int_bitlen_bounds [OF d] by simp_all
  have dpos: "(0::rat) < of_int d" using d by simp
  have "2 powi (k - 1) = (2::rat) powi (bitlen n - 1) / 2 powi (bitlen d)"
    by (simp add: k_def power_int_diff)
  also have "\<dots> \<le> of_int n / 2 powi (bitlen d)"
    using bn(1) by (simp add: divide_right_mono)
  also have "\<dots> < of_int n / of_int d"
    using bd(2) n dpos by (simp add: divide_strict_left_mono)
  finally have lo: "2 powi (k - 1) < q" by (simp add: q)
  have "q = of_int n / of_int d" by (rule q)
  also have "\<dots> < 2 powi (bitlen n) / of_int d"
    using bn(2) dpos by (simp add: divide_strict_right_mono)
  also have "\<dots> \<le> 2 powi (bitlen n) / 2 powi (bitlen d - 1)"
    using bd(1) by (intro frac_le) simp_all
  also have "\<dots> = 2 powi (k + 1)"
    by (simp add: k_def power_int_diff power_int_add)
  finally have hi: "q < 2 powi (k + 1)" .
  have il: "ilog2 q = (if 2 powi k \<le> q then k else k - 1)"
    by (simp add: ilog2_def nd k_def)
  show "2 powi (ilog2 q) \<le> q"
    using lo by (simp add: il)
  show "q < 2 powi (ilog2 q + 1)"
    using hi by (auto simp: il)
qed


lemma two_powi_le: "m \<le> n \<Longrightarrow> (2::rat) powi m \<le> 2 powi n"
  by (rule power_int_increasing) simp_all

lemma two_powi_less_exp: "(2::rat) powi m < 2 powi n \<Longrightarrow> m < n"
  using two_powi_le [of n m] by (cases "m < n") simp_all

lemma to_binary64_0: "to_binary64 0 = 0"
  by (simp add: to_binary64_def)

lemma to_binary64_minus: "to_binary64 (- q) = - to_binary64 q"
  by (simp add: to_binary64_def Let_def round_half_even_minus)

lemma to_binary64_error:
  assumes "q \<noteq> 0"
  shows "\<bar>to_binary64 q - q\<bar> \<le> 2 powi (max (ilog2 \<bar>q\<bar>) (- 1022) - 52) / 2"
proof -
  define P :: rat where "P = 2 powi (max (ilog2 \<bar>q\<bar>) (- 1022) - 52)"
  have P: "0 < P" by (simp add: P_def)
  define m where "m = round_half_even (q / P)"
  have r: "to_binary64 q = of_int m * P"
    using assms by (simp add: to_binary64_def Let_def P_def m_def)
  have "to_binary64 q - q = (of_int m - q / P) * P"
    using P by (simp add: r algebra_simps)
  then have "\<bar>to_binary64 q - q\<bar> = \<bar>of_int m - q / P\<bar> * P"
    using P by (simp add: abs_mult)
  also have "\<dots> \<le> (1 / 2) * P"
    using round_half_even_error [of "q / P"] P
    unfolding m_def by (intro mult_right_mono) simp_all
  finally show ?thesis by (simp add: P_def)
qed

lemma half_ulp_bound:
  assumes "q \<noteq> 0"
  shows "2 powi (max (ilog2 \<bar>q\<bar>) (- 1022) - 52) / 2 \<le> max (\<bar>q\<bar> / 2 ^ 53) (1 / 2 ^ 1075)"
proof (cases "- 1022 \<le> ilog2 \<bar>q\<bar>")
  case True
  have "0 < \<bar>q\<bar>" using assms by simp
  then have lo: "2 powi (ilog2 \<bar>q\<bar>) \<le> \<bar>q\<bar>" by (rule ilog2_bounds)
  have "(2::rat) powi (max (ilog2 \<bar>q\<bar>) (- 1022) - 52) / 2 = 2 powi (ilog2 \<bar>q\<bar>) / 2 ^ 53"
    using True by (simp add: max_def power_int_diff)
  also have "\<dots> \<le> \<bar>q\<bar> / 2 ^ 53"
    using lo by (simp add: divide_right_mono)
  finally show ?thesis by (simp add: le_max_iff_disj)
next
  case False
  then have "(2::rat) powi (max (ilog2 \<bar>q\<bar>) (- 1022) - 52) / 2 = 1 / 2 ^ 1075"
    by (simp add: max_def)
  then show ?thesis by (simp add: le_max_iff_disj)
qed

lemma to_binary64_tolerance:
  "\<bar>to_binary64 q - q\<bar> \<le> max (\<bar>q\<bar> / 2 ^ 53) (1 / 2 ^ 1075)"
proof (cases "q = 0")
  case True
  then show ?thesis by (simp add: to_binary64_0)
next
  case False
  then show ?thesis
    using to_binary64_error [OF False] half_ulp_bound [OF False] by linarith
qed

lemma to_binary64_no_overflow:
  assumes "\<bar>q\<bar> < 2 ^ 1024 - 2 ^ 970"
  shows "\<not> overflows (to_binary64 q)"
proof (cases "q = 0")
  case True
  then show ?thesis by (simp add: to_binary64_0 overflows_def)
next
  case False
  then have "0 < \<bar>q\<bar>" by simp
  then have "2 powi (ilog2 \<bar>q\<bar>) \<le> \<bar>q\<bar>" by (rule ilog2_bounds)
  also have "\<bar>q\<bar> < 2 powi 1024" using assms by simp
  finally have "ilog2 \<bar>q\<bar> < 1024" by (rule two_powi_less_exp)
  then have "max (ilog2 \<bar>q\<bar>) (- 1022) - 52 \<le> 971" by simp
  then have "(2::rat) powi (max (ilog2 \<bar>q\<bar>) (- 1022) - 52) \<le> 2 powi 971"
    by (rule two_powi_le)
  then have "(2::rat) powi (max (ilog2 \<bar>q\<bar>) (- 1022) - 52) / 2 \<le> 2 ^ 970"
    by simp
  with to_binary64_error [OF False] have "\<bar>to_binary64 q - q\<bar> \<le> 2 ^ 970"
    by linarith
  with assms have "\<bar>to_binary64 q\<bar> < 2 ^ 1024" by linarith
  then show ?thesis by (simp add: overflows_def)
qed


lemma to_binary64_overflow_pos:
  assumes "2 ^ 1024 - 2 ^ 970 \<le> q"
  shows "2 ^ 1024 \<le> to_binary64 q"
proof -
  have q: "0 < q" "q \<noteq> 0" "\<bar>q\<bar> = q"
    using assms by simp_all
  define e where "e = ilog2 q"
  have lo: "2 powi e \<le> q" and hi: "q < 2 powi (e + 1)"
    using ilog2_bounds [OF q(1)] by (simp_all add: e_def)
  have "(2::rat) powi 1023 \<le> 2 ^ 1024 - 2 ^ 970" by simp
  also have "\<dots> < 2 powi (e + 1)" using assms hi by linarith
  finally have "1023 < e + 1" by (rule two_powi_less_exp)
  then have e: "1023 \<le> e" by simp
  define P :: rat where "P = 2 powi (e - 52)"
  have P: "0 < P" by (simp add: P_def)
  define m where "m = round_half_even (q / P)"
  have r: "to_binary64 q = of_int m * P"
    using q(2) e by (simp add: to_binary64_def Let_def q(3) e_def [symmetric] P_def m_def max_def)
  show ?thesis
  proof (cases "e = 1023")
    case True
    then have P971: "P = 2 ^ 971" by (simp add: P_def)
    define y where "y = q / P"
    have x: "2 ^ 53 - 1 / 2 \<le> y"
      using assms by (simp add: y_def P971 field_simps)
    then have "2 ^ 53 - 1 \<le> y" by linarith
    then have "of_int (2 ^ 53 - 1) \<le> y" by simp
    then have fl: "2 ^ 53 - 1 \<le> \<lfloor>y\<rfloor>" by (simp only: le_floor_iff)
    have m: "m = round_half_even y" by (simp add: m_def y_def)
    have "2 ^ 53 \<le> m"
    proof (cases "\<lfloor>y\<rfloor> = 2 ^ 53 - 1")
      case True
      then have "of_int \<lfloor>y\<rfloor> = (2 ^ 53 - 1 :: rat)" by simp
      then have d: "1 / 2 \<le> y - of_int \<lfloor>y\<rfloor>" using x by linarith
      have "odd \<lfloor>y\<rfloor>" by (simp add: True)
      then have "m = \<lfloor>y\<rfloor> + 1"
        using d unfolding m round_half_even_def Let_def by auto
      then show ?thesis by (simp add: True)
    next
      case False
      then have "2 ^ 53 \<le> \<lfloor>y\<rfloor>" using fl by linarith
      then show ?thesis
        using round_half_even_ge_floor [of y] unfolding m by linarith
    qed
    then have "(2::rat) ^ 53 \<le> of_int m"
      by (metis of_int_le_iff of_int_numeral of_int_power)
    then have "2 ^ 53 * P \<le> of_int m * P"
      using P by (simp add: mult_right_mono)
    then show ?thesis by (simp add: r P971)
  next
    case False
    with e have e': "1024 \<le> e" by simp
    have "q / P \<ge> 2 powi e / P"
      using lo P by (simp add: divide_right_mono)
    moreover have "2 powi e / P = 2 ^ 52"
      by (simp add: P_def power_int_diff)
    ultimately have "of_int (2 ^ 52) \<le> q / P"
      by simp
    then have "2 ^ 52 \<le> \<lfloor>q / P\<rfloor>"
      by (simp only: le_floor_iff)
    then have "2 ^ 52 \<le> m"
      using round_half_even_ge_floor [of "q / P"] unfolding m_def by linarith
    then have "(2::rat) ^ 52 \<le> of_int m"
      by (metis of_int_le_iff of_int_numeral of_int_power)
    then have "2 ^ 52 * P \<le> of_int m * P"
      using P by (simp add: mult_right_mono)
    moreover have "2 ^ 52 * P = 2 powi e"
      by (simp add: P_def power_int_diff)
    moreover have "(2::rat) powi 1024 \<le> 2 powi e"
      using e' by (rule two_powi_le)
    ultimately show ?thesis by (simp add: r)
  qed
qed

lemma to_binary64_overflow:
  assumes "2 ^ 1024 - 2 ^ 970 \<le> \<bar>q\<bar>"
  shows "overflows (to_binary64 q)"
proof (cases "0 \<le> q")
  case True
  then show ?thesis
    using assms to_binary64_overflow_pos [of q] by (simp add: overflows_def)
next
  case False
  then have "2 ^ 1024 - 2 ^ 970 \<le> - q" using assms by simp
  then have "2 ^ 1024 \<le> to_binary64 (- q)" by (rule to_binary64_overflow_pos)
  then show ?thesis by (simp add: overflows_def to_binary64_minus)
qed



lemma float_value_rounded:
  "float_value (if to_binary64 q = 0 then signed_zero neg else Finite (to_binary64 q))
     = to_binary64 q"
  by (simp add: signed_zero_def)

lemma within_tolerance_rounded:
  "within_tolerance (if to_binary64 q = 0 then signed_zero neg else Finite (to_binary64 q)) q"
proof -
  have "is_finite (if to_binary64 q = 0 then signed_zero neg else Finite (to_binary64 q))"
    by (simp add: signed_zero_def)
  then show ?thesis
    unfolding within_tolerance_def float_value_rounded
    using to_binary64_tolerance [of q] by (intro conjI)
qed

lemma int_truediv_rounds:
  assumes "y \<noteq> 0" and "\<bar>of_int x / of_int y\<bar> < (2 ^ 1024 - 2 ^ 970 :: rat)"
  shows "int_truediv x y =
     Inr (if to_binary64 (of_int x / of_int y) = 0 then signed_zero ((x < 0) \<noteq> (y < 0))
          else Finite (to_binary64 (of_int x / of_int y)))"
  using assms(1) to_binary64_no_overflow [OF assms(2)] by (simp add: int_truediv_def Let_def)

lemma int_truediv_overflow:
  assumes "y \<noteq> 0" and "(2 ^ 1024 - 2 ^ 970 :: rat) \<le> \<bar>of_int x / of_int y\<bar>"
  shows "int_truediv x y = Inl OverflowError"
  using assms(1) to_binary64_overflow [OF assms(2)] by (simp add: int_truediv_def Let_def)

lemma round_half_even_int_times:
  "round_half_even (of_int n * 2 ^ k) = n * 2 ^ k"
proof -
  have "(of_int n * 2 ^ k :: rat) = of_int (n * 2 ^ k)" by simp
  then show ?thesis by (simp only: round_half_even_of_int)
qed

lemma to_binary64_small_int:
  assumes "\<bar>x\<bar> \<le> 2 ^ 53"
  shows "to_binary64 (of_int x) = of_int x"
proof (cases "x = 0")
  case True
  then show ?thesis by (simp add: to_binary64_0)
next
  case False
  define q :: rat where "q = of_int x"
  have q0: "q \<noteq> 0" and qpos: "0 < \<bar>q\<bar>" using False by (simp_all add: q_def)
  have qa: "\<bar>q\<bar> = of_int \<bar>x\<bar>" by (simp add: q_def)
  have "1 \<le> \<bar>x\<bar>" using False by simp
  then have "(of_int 1 :: rat) \<le> of_int \<bar>x\<bar>" by (simp only: of_int_le_iff)
  then have q1: "1 \<le> \<bar>q\<bar>" by (simp add: qa)
  have "(of_int \<bar>x\<bar> :: rat) \<le> of_int (2 ^ 53)" using assms by (simp only: of_int_le_iff)
  then have q53: "\<bar>q\<bar> \<le> 2 ^ 53" by (simp add: qa)
  define e where "e = ilog2 \<bar>q\<bar>"
  have lo: "2 powi e \<le> \<bar>q\<bar>" and hi: "\<bar>q\<bar> < 2 powi (e + 1)"
    using ilog2_bounds [OF qpos] by (simp_all add: e_def)
  have "(2::rat) powi 0 < 2 powi (e + 1)" using q1 hi by simp
  then have e0: "0 \<le> e" using two_powi_less_exp [of 0 "e + 1"] by simp
  have "(2::rat) powi e < 2 powi 54" using lo q53 by (simp add: order.strict_trans1 order.strict_trans2)
  then have e53: "e \<le> 53" using two_powi_less_exp [of e 54] by simp
  have r: "to_binary64 q = of_int (round_half_even (q / 2 powi (e - 52))) * 2 powi (e - 52)"
    using q0 e0 by (simp add: to_binary64_def Let_def e_def [symmetric] max_def)
  show ?thesis
  proof (cases "e = 53")
    case True
    have "\<bar>q\<bar> = 2 ^ 53" using lo q53 True by simp
    then have "(of_int \<bar>x\<bar> :: rat) = of_int (2 ^ 53)" by (simp add: qa)
    then have "\<bar>x\<bar> = 2 ^ 53" by (simp only: of_int_eq_iff)
    then have "x = 2 ^ 53 \<or> x = - (2 ^ 53)" by linarith
    then have "q / 2 = of_int (2 ^ 52) \<or> q / 2 = of_int (- (2 ^ 52))"
      by (auto simp: q_def)
    then have "of_int (round_half_even (q / 2)) * 2 = q"
      by (auto simp only: round_half_even_of_int)
    then show ?thesis
      using r True by (simp add: q_def)
  next
    case False
    then have le: "e \<le> 52" using e53 by simp
    have P: "(2::rat) powi (e - 52) = 1 / 2 ^ nat (52 - e)"
      using le by (simp add: power_int_def inverse_eq_divide power_inverse nat_diff_distrib flip: power_one_over)
    have "q / 2 powi (e - 52) = of_int x * 2 ^ nat (52 - e)"
      by (simp add: P q_def)
    then have "round_half_even (q / 2 powi (e - 52)) = x * 2 ^ nat (52 - e)"
      by (simp only: round_half_even_int_times)
    then show ?thesis
      using r by (simp add: P q_def)
  qed
qed


lemma float_of_int_small:
  assumes "\<bar>x\<bar> \<le> 2 ^ 53"
  shows "float_of_int x = Inr (Finite (of_int x))"
proof -
  have "(of_int \<bar>x\<bar> :: rat) \<le> of_int (2 ^ 53)" using assms by (simp only: of_int_le_iff)
  then have "\<bar>of_int x :: rat\<bar> < 2 ^ 1024" by simp
  then show ?thesis
    by (simp add: float_of_int_def to_binary64_small_int [OF assms] overflows_def)
qed

lemma float_div_finite:
  assumes "is_finite f" and "is_finite g" and "float_value g \<noteq> 0"
    and "\<bar>float_value f / float_value g\<bar> < 2 ^ 1024 - 2 ^ 970"
  shows "float_div f g =
     Inr (if to_binary64 (float_value f / float_value g) = 0
          then signed_zero (is_negative f \<noteq> is_negative g)
          else Finite (to_binary64 (float_value f / float_value g)))"
  using assms(1-3) to_binary64_no_overflow [OF assms(4)]
  by (cases f; cases g) (simp_all add: float_div_def ieee_div_def Let_def)

lemma number_quotient_rounds:
  assumes "number_value m = Some x" and "number_value n = Some y" and "y \<noteq> 0"
    and "\<bar>x / y\<bar> < 2 ^ 1024 - 2 ^ 970" and "exact_numbers m n"
  shows "\<exists>neg. number_quotient m n =
     Inr (if to_binary64 (x / y) = 0 then signed_zero neg else Finite (to_binary64 (x / y)))"
proof (cases m)
  case (NInt i)
  show ?thesis
  proof (cases n)
    case (NInt j)
    then show ?thesis
      using assms \<open>m = NInt i\<close> int_truediv_rounds [of j i] by auto
  next
    case (NFloat g)
    then show ?thesis
      using assms \<open>m = NInt i\<close> float_div_finite [of "Finite (of_int i)" g]
      by (auto simp: float_of_int_small split: if_splits)
  next
    case (NComplex re im)
    then show ?thesis using assms by simp
  qed
next
  case (NFloat f)
  show ?thesis
  proof (cases n)
    case (NInt j)
    then show ?thesis
      using assms \<open>m = NFloat f\<close> float_div_finite [of f "Finite (of_int j)"]
      by (auto simp: float_of_int_small split: if_splits)
  next
    case (NFloat g)
    then show ?thesis
      using assms \<open>m = NFloat f\<close> float_div_finite [of f g]
      by (auto split: if_splits)
  next
    case (NComplex re im)
    then show ?thesis using assms by simp
  qed
next
  case (NComplex re im)
  then show ?thesis using assms by simp
qed

lemma float_quotient_rounds:
  assumes "real_value a = Some x" and "real_value b = Some y" and "y \<noteq> 0"
    and "\<bar>x / y\<bar> < 2 ^ 1024 - 2 ^ 970" and "exact_operands a b"
  shows "\<exists>neg. float_quotient a b =
     Inr (if to_binary64 (x / y) = 0 then signed_zero neg else Finite (to_binary64 (x / y)))"
proof -
  obtain m n where m: "as_number a = Some m" "number_value m = Some x"
    and n: "as_number b = Some n" "number_value n = Some y"
    using assms(1,2) by (auto simp: real_value_def split: option.splits)
  have "exact_numbers m n"
    using assms(5) m(1) n(1) by (simp add: exact_operands_def)
  from number_quotient_rounds [OF m(2) n(2) assms(3,4) this]
  show ?thesis
    by (simp add: float_quotient_def m(1) n(1))
qed

subsection \<open>Diagnostics that cannot be built\<close>

text \<open>
  No clause of \<^verbatim>\<open>divide\<close> guards the text it prints. With the default limit of 4300
  digits, \<^verbatim>\<open>divide(a, (10**4300,))\<close> raises \<^verbatim>\<open>ValueError\<close> from its \<^verbatim>\<open>TypeError\<close> clause
  for every \<^verbatim>\<open>a\<close>, and a list nested deeper than the recursion limit allows raises
  \<^verbatim>\<open>RecursionError\<close>; the world is left as it was.
\<close>

lemma int_str_raises_power_of_ten: "0 < n \<Longrightarrow> int_str_raises n (10 ^ n)"
  by (simp add: int_str_raises_def)

lemma format_raises_tuple_of_long_int:
  assumes "int_str_raises (int_max_str_digits w) i"
  shows "format_raises w (PyTuple [PyInt i]) = Some ValueError"
  using assms by (simp add: format_raises_def repr_raises.simps)

lemma tuple_not_numeric: "\<not> numeric (PyTuple xs)"
  by simp

lemma float_quotient_non_number: "\<not> numeric b \<Longrightarrow> float_quotient a b = Inl TypeError"
  using as_number_None [of b] by (simp add: float_quotient_def split: option.splits)

lemma divide_by_long_int_tuple:
  "divide a (PyTuple [PyInt (10 ^ 4300)]) example_world = (Inl ValueError, example_world)"
proof -
  have l: "int_max_str_digits example_world = 4300"
    by (simp add: example_world_def)
  have "int_str_raises (int_max_str_digits example_world) (10 ^ 4300)"
    unfolding l by (rule int_str_raises_power_of_ten) simp
  then have f: "format_raises example_world (PyTuple [PyInt (10 ^ 4300)]) = Some ValueError"
    by (rule format_raises_tuple_of_long_int)
  have "\<not> numeric (PyTuple [PyInt (10 ^ 4300)])"
    by (rule tuple_not_numeric)
  then have "float_quotient a (PyTuple [PyInt (10 ^ 4300)]) = Inl TypeError"
    by (rule float_quotient_non_number)
  then show ?thesis
    using f by (rule divide_clause_raises)
qed

lemma divide_by_deep_list:
  assumes "repr_depth w = 0"
  shows "divide a (PyList [PyList [PyList [PyList [PyList [PyList [PyList [PyList
            [PyList []]]]]]]]]) w = (Inl RecursionError, w)"
proof -
  have "float_quotient a (PyList [PyList [PyList [PyList [PyList [PyList [PyList [PyList
            [PyList []]]]]]]]]) = Inl TypeError"
    by (rule float_quotient_non_number) simp
  moreover have "format_raises w (PyList [PyList [PyList [PyList [PyList [PyList [PyList [PyList
            [PyList []]]]]]]]]) = Some RecursionError"
    using assms by (simp add: format_raises_def repr_raises.simps)
  ultimately show ?thesis by (rule divide_clause_raises)
qed

subsection \<open>Claim C1: one category and one diagnostic per failing call\<close>

text \<open>
  C1 as stated fails in three ways. \<^verbatim>\<open>parse_color\<close> has one clause, \<^verbatim>\<open>except Exception\<close>,
  which returns black and writes nothing: \<^verbatim>\<open>parse_color("not a color")\<close> fails inside
  the \<^verbatim>\<open>try\<close> block with \<^verbatim>\<open>ValueError\<close>, returns \<^verbatim>\<open>RGB(0, 0, 0)\<close>, and no diagnostic is
  emitted. \<^verbatim>\<open>divide(None, (10**4300,))\<close> selects the \<^verbatim>\<open>TypeError\<close> clause, which raises
  \<^verbatim>\<open>ValueError\<close> while it builds its line, and nothing is printed.
  \<^verbatim>\<open>read_json_file(None)\<close> raises \<^verbatim>\<open>TypeError\<close> before its \<^verbatim>\<open>try\<close> statement, and nothing
  is logged.
\<close>

theorem failing_calls_without_diagnostic:
  "parse_color_try (PyStr ''not a color'') = Inl ValueError
   \<and> fst (parse_color (PyStr ''not a color'') example_world) = Inr (RGB (PyInt 0) (PyInt 0) (PyInt 0))
   \<and> emitted example_world (snd (parse_color (PyStr ''not a color'') example_world)) = 0
   \<and> divide PyNone (PyTuple [PyInt (10 ^ 4300)]) example_world = (Inl ValueError, example_world)
   \<and> read_json_file example_json_load PyNone example_world = (Inl TypeError, example_world)"
proof -
  have t: "parse_color_try (PyStr ''not a color'') = Inl ValueError"
    by code_simp
  then have r: "fst (parse_color (PyStr ''not a color'') example_world)
      = Inr (RGB (PyInt 0) (PyInt 0) (PyInt 0))"
    by (simp add: parse_color_failure)
  have n: "emitted example_world (snd (parse_color (PyStr ''not a color'') example_world)) = 0"
    by (simp add: parse_color_world emitted_def)
  have d: "divide PyNone (PyTuple [PyInt (10 ^ 4300)]) example_world
      = (Inl ValueError, example_world)"
    by (rule divide_by_long_int_tuple)
  have j: "read_json_file example_json_load PyNone example_world = (Inl TypeError, example_world)"
    by (simp add: read_json_file_def)
  show ?thesis
    by (intro conjI t r n d j)
qed

text \<open>
  C1, amended. For every call of \<^verbatim>\<open>divide\<close> whose division raises and whose clause
  can build its diagnostic (only the \<^verbatim>\<open>TypeError\<close> clause formats a value), and for
  every call of \<^verbatim>\<open>read_json_file\<close> on a \<^verbatim>\<open>str\<close> or \<^verbatim>\<open>Path\<close> whose \<^verbatim>\<open>with\<close> block
  raises, the first \<^verbatim>\<open>except\<close> clause that matches is the one that runs, the clauses
  are ordered as the specification orders its categories, and exactly one diagnostic,
  naming the category of that clause, is printed or logged; the default value is
  returned. \<^verbatim>\<open>parse_color\<close> emits no diagnostic at all.
\<close>

theorem one_diagnostic_per_failing_call:
  "(float_quotient a b = Inl e \<and> (e = TypeError \<longrightarrow> format_raises w b = None) \<longrightarrow>
      (\<exists>line. divide a b w = (Inr (PyInt 0), print line w)
         \<and> first_match e (divide_handlers b e) = Some line
         \<and> line_category line = Some (spec_divide_category e)
         \<and> emitted w (snd (divide a b w)) = 1))
   \<and> (to_path file_path = Inr p \<and> fst (read_json_try json_load p w) = Inl e' \<longrightarrow>
      (\<exists>r. read_json_file json_load file_path w = (Inr (PyDict []), logging_error r w)
         \<and> first_match e' (read_handlers p e') = Some r
         \<and> record_category r = spec_read_category e'
         \<and> emitted w (snd (read_json_file json_load file_path w)) = 1))
   \<and> emitted w (snd (parse_color color w)) = 0"
proof (intro conjI impI)
  assume h: "float_quotient a b = Inl e \<and> (e = TypeError \<longrightarrow> format_raises w b = None)"
  then have q: "float_quotient a b = Inl e" by simp
  obtain l where l: "first_match e (divide_handlers b e) = Some l"
    using divide_handlers_total by blast
  have "format_line w l = None"
    using h l float_quotient_raises [OF q]
    by (auto simp: divide_handlers_def isinstance_exc_def)
  then have "divide a b w = (Inr (PyInt 0), print l w)"
    using q l by (simp add: divide_def finally_default_def)
  then show "\<exists>line. divide a b w = (Inr (PyInt 0), print line w)
         \<and> first_match e (divide_handlers b e) = Some line
         \<and> line_category line = Some (spec_divide_category e)
         \<and> emitted w (snd (divide a b w)) = 1"
    using l divide_handlers_category [OF l] by (simp add: emitted_print)
next
  assume "to_path file_path = Inr p \<and> fst (read_json_try json_load p w) = Inl e'"
  then have p: "to_path file_path = Inr p" and t: "fst (read_json_try json_load p w) = Inl e'"
    by simp_all
  obtain r where r: "first_match e' (read_handlers p e') = Some r"
    using read_handlers_total by blast
  have "read_json_file json_load file_path w = (Inr (PyDict []), logging_error r w)"
    using read_json_file_failure [OF p t] r by simp
  then show "\<exists>r. read_json_file json_load file_path w = (Inr (PyDict []), logging_error r w)
         \<and> first_match e' (read_handlers p e') = Some r
         \<and> record_category r = spec_read_category e'
         \<and> emitted w (snd (read_json_file json_load file_path w)) = 1"
    using r read_handlers_category [OF r] by (simp add: emitted_logging_error)
next
  show "emitted w (snd (parse_color color w)) = 0"
    by (simp add: parse_color_world emitted_def)
qed

theorem one_diagnostic_per_failing_call_witness:
  "float_quotient (PyInt 10) PyNone = Inl TypeError
   \<and> format_raises example_world PyNone = None
   \<and> divide (PyInt 10) PyNone example_world
       = (Inr (PyInt 0), print (Print_type_error PyNone) example_world)
   \<and> to_path (PyStr ''./nonexistent.json'') = Inr ''nonexistent.json''
   \<and> fst (read_json_try example_json_load ''nonexistent.json'' example_world)
       = Inl FileNotFoundError
   \<and> read_json_file example_json_load (PyStr ''./nonexistent.json'') example_world
       = (Inr (PyDict []), logging_error (Log_file_not_found ''nonexistent.json'') example_world)
   \<and> emitted example_world (snd (parse_color (PyStr ''not a color'') example_world)) = 0"
proof -
  have q: "float_quotient (PyInt 10) PyNone = Inl TypeError"
    by (simp add: float_quotient_def)
  have f: "format_raises example_world PyNone = None"
    by (simp add: format_raises_flat)
  have p: "to_path (PyStr ''./nonexistent.json'') = Inr ''nonexistent.json''"
    by (simp add: path_str_examples)
  have t: "fst (read_json_try example_json_load ''nonexistent.json'' example_world)
       = Inl FileNotFoundError"
    by (simp add: read_json_try_cases example_world_def)
  show ?thesis
    using one_diagnostic_per_failing_call
      [where a = "PyInt 10" and b = PyNone and e = TypeError and w = example_world
         and file_path = "PyStr ''./nonexistent.json''" and p = "''nonexistent.json''"
         and json_load = example_json_load and e' = FileNotFoundError
         and color = "PyStr ''not a color''"]
      q f p t
    by (auto simp: divide_handlers_def read_handlers_def isinstance_exc_def)
qed

subsection \<open>Claim C2: no failure propagates, and the default has the declared type\<close>






subsection \<open>Claim C3: the quotient of two numbers\<close>

text \<open>
  C3 as stated fails where the quotient is too large for a float: \<^verbatim>\<open>2**1024 / 1\<close> raises
  \<^verbatim>\<open>OverflowError\<close> inside the \<^verbatim>\<open>try\<close> block, so \<^verbatim>\<open>divide(2**1024, 1)\<close>, with numeric
  operands and a divisor that is not zero, returns 0 and prints the diagnostic of the
  catch-all clause.
\<close>

theorem divide_overflowing_quotient:
  "numeric (PyInt (2 ^ 1024)) \<and> numeric (PyInt 1) \<and> PyInt 1 \<noteq> PyInt 0
   \<and> divide (PyInt (2 ^ 1024)) (PyInt 1) example_world
       = (Inr (PyInt 0), print (Print_other_error OverflowError) example_world)"
proof -
  have "int_truediv (2 ^ 1024) 1 = Inl OverflowError"
    by (rule int_truediv_overflow) simp_all
  then have "float_quotient (PyInt (2 ^ 1024)) (PyInt 1) = Inl OverflowError"
    by (simp add: float_quotient_def)
  then show ?thesis
    by (simp add: divide_overflow)
qed

text \<open>
  C3, amended. For operands that are \<^verbatim>\<open>bool\<close>s, \<^verbatim>\<open>int\<close>s or finite \<^verbatim>\<open>float\<close>s (an
  \<^verbatim>\<open>int\<close> next to a \<^verbatim>\<open>float\<close> being of magnitude at most \<open>2^53\<close>), with a divisor
  that is not zero and an exact quotient \<open>q\<close> of magnitude below \<open>2^1024 - 2^970\<close>,
  \<^verbatim>\<open>divide\<close> returns the float nearest to \<open>q\<close>, which differs from \<open>q\<close> by at most
  \<open>|q| / 2^53\<close> (by at most \<open>2^(-1075)\<close> below the normal range), and prints the single
  line \<^verbatim>\<open>No errors\<close>, which names no failure category.
\<close>

theorem divide_returns_rounded_quotient:
  assumes "real_value a = Some x" and "real_value b = Some y" and "y \<noteq> 0"
    and "\<bar>x / y\<bar> < 2 ^ 1024 - 2 ^ 970" and "exact_operands a b"
  shows "\<exists>f. divide a b w = (Inr (PyFloat f), print Print_no_errors w)
           \<and> line_category Print_no_errors = None
           \<and> float_value f = to_binary64 (x / y)
           \<and> within_tolerance f (x / y)"
proof -
  obtain neg where "float_quotient a b =
     Inr (if to_binary64 (x / y) = 0 then signed_zero neg else Finite (to_binary64 (x / y)))"
    using float_quotient_rounds [OF assms] by blast
  then show ?thesis
    using within_tolerance_rounded [of "x / y" neg] float_value_rounded [of "x / y" neg]
      divide_success by auto
qed

lemma float_quotient_92_2: "float_quotient (PyInt 92) (PyInt 2) = Inr (Finite 46)"
  by code_simp

theorem divide_returns_rounded_quotient_witness:
  "real_value (PyInt 92) = Some 92 \<and> real_value (PyInt 2) = Some 2 \<and> (2::rat) \<noteq> 0
   \<and> \<bar>92 / 2\<bar> < (2 ^ 1024 - 2 ^ 970 :: rat) \<and> exact_operands (PyInt 92) (PyInt 2)
   \<and> (\<exists>f. divide (PyInt 92) (PyInt 2) example_world
            = (Inr (PyFloat f), print Print_no_errors example_world)
          \<and> line_category Print_no_errors = None
          \<and> float_value f = to_binary64 (92 / 2)
          \<and> within_tolerance f (92 / 2))
   \<and> divide (PyInt 92) (PyInt 2) example_world
       = (Inr (PyFloat (Finite 46)), print Print_no_errors example_world)"
proof -
  have h: "real_value (PyInt 92) = Some 92" "real_value (PyInt 2) = Some 2" "(2::rat) \<noteq> 0"
    "\<bar>92 / 2\<bar> < (2 ^ 1024 - 2 ^ 970 :: rat)" "exact_operands (PyInt 92) (PyInt 2)"
    by (simp_all add: real_value_def exact_operands_def)
  show ?thesis
    using h divide_returns_rounded_quotient [OF h, of example_world]
      divide_success [OF float_quotient_92_2, of example_world]
    by blast
qed

subsection \<open>Claim C4: division by zero\<close>



text \<open>
  The claim is about the \<^verbatim>\<open>int\<close> 0. With the \<^verbatim>\<open>float\<close> zero as divisor an \<^verbatim>\<open>int\<close>
  dividend is converted to \<^verbatim>\<open>float\<close> first, so a dividend too large for a float meets
  the catch-all clause instead.
\<close>

lemma divide_huge_int_by_float_zero:
  "divide (PyInt (2 ^ 1024)) (PyFloat (Finite 0)) w
     = (Inr (PyInt 0), print (Print_other_error OverflowError) w)"
proof -
  have "overflows (to_binary64 (of_int (2 ^ 1024)))"
    by (rule to_binary64_overflow) simp
  then have "float_quotient (PyInt (2 ^ 1024)) (PyFloat (Finite 0)) = Inl OverflowError"
    by (simp add: float_quotient_def float_of_int_def)
  then show ?thesis
    by (simp add: divide_overflow)
qed

subsection \<open>Claim C5: a divisor that is not a number\<close>




text \<open>The text of \<^verbatim>\<open>None\<close>, of a string and of a \<^verbatim>\<open>Path\<close> is always produced, so for
  these divisors the amended claim needs no condition.\<close>

lemma divide_by_none_str_or_path:
  assumes "b = PyNone \<or> b = PyStr s \<or> b = PyPath s"
  shows "divide a b w = (Inr (PyInt 0), print (Print_type_error b) w)"
proof -
  have "float_quotient a b = Inl TypeError"
    using assms by (auto simp: float_quotient_def split: option.splits)
  moreover have "format_raises w b = None"
    using assms by (auto simp: format_raises_flat)
  ultimately show ?thesis by (rule divide_type_error)
qed

subsection \<open>Claim C6: a path at which nothing exists\<close>

text \<open>
  C6 as stated fails for a path that runs through a regular file. Nothing exists at
  \<^verbatim>\<open>data.json/x\<close> when \<^verbatim>\<open>data.json\<close> is a regular file, but \<^verbatim>\<open>open\<close> raises
  \<^verbatim>\<open>NotADirectoryError\<close>, which no clause but the last catches: the diagnostic is the
  one for an unexpected error, not the one for a missing file.
\<close>

theorem path_through_file_is_unexpected:
  "to_path (PyStr ''data.json/x'') = Inr ''data.json/x''
   \<and> nothing_exists (files example_world ''data.json/x'')
   \<and> read_json_file example_json_load (PyStr ''data.json/x'') example_world
       = (Inr (PyDict []),
          logging_error (Log_unexpected ''data.json/x'' NotADirectoryError) example_world)
   \<and> record_category (Log_unexpected ''data.json/x'' NotADirectoryError) = Unexpected_error"
proof -
  have p: "to_path (PyStr ''data.json/x'') = Inr ''data.json/x''"
    by (simp add: path_str_examples)
  have f: "files example_world ''data.json/x'' = Not_a_directory"
    by (simp add: example_world_def)
  then have "fst (read_json_try example_json_load ''data.json/x'' example_world)
       = Inl NotADirectoryError"
    by (simp add: read_json_try_cases)
  then show ?thesis
    using p f read_json_file_failure [OF p]
    by (simp add: read_handlers_def isinstance_exc_def)
qed

text \<open>
  C6, amended. For every path of which a component is missing from the directory that
  should hold it (\<^verbatim>\<open>open\<close> raises \<^verbatim>\<open>FileNotFoundError\<close>), \<^verbatim>\<open>read_json_file\<close> returns the
  empty \<^verbatim>\<open>dict\<close> and logs the resource-not-found diagnostic, with the normalised path,
  and nothing else. For a path that runs through a regular file it returns the empty
  \<^verbatim>\<open>dict\<close> with the diagnostic for an unexpected error.
\<close>

theorem missing_file_gives_empty_mapping:
  assumes "to_path file_path = Inr p"
  shows "(files w p = No_entry \<longrightarrow>
            read_json_file json_load file_path w
              = (Inr (PyDict []), logging_error (Log_file_not_found p) w))
     \<and> (files w p = Not_a_directory \<longrightarrow>
            read_json_file json_load file_path w
              = (Inr (PyDict []), logging_error (Log_unexpected p NotADirectoryError) w))"
proof (intro conjI impI)
  assume "files w p = No_entry"
  then have "fst (read_json_try json_load p w) = Inl FileNotFoundError"
    by (simp add: read_json_try_cases)
  then show "read_json_file json_load file_path w
     = (Inr (PyDict []), logging_error (Log_file_not_found p) w)"
    using read_json_file_failure [OF assms]
    by (simp add: read_handlers_def isinstance_exc_def)
next
  assume "files w p = Not_a_directory"
  then have "fst (read_json_try json_load p w) = Inl NotADirectoryError"
    by (simp add: read_json_try_cases)
  then show "read_json_file json_load file_path w
     = (Inr (PyDict []), logging_error (Log_unexpected p NotADirectoryError) w)"
    using read_json_file_failure [OF assms]
    by (simp add: read_handlers_def isinstance_exc_def)
qed

theorem missing_file_gives_empty_mapping_witness:
  "to_path (PyStr ''./nonexistent.json'') = Inr ''nonexistent.json''
   \<and> files example_world ''nonexistent.json'' = No_entry
   \<and> read_json_file example_json_load (PyStr ''./nonexistent.json'') example_world
       = (Inr (PyDict []), logging_error (Log_file_not_found ''nonexistent.json'') example_world)
   \<and> to_path (PyPath ''data.json//x'') = Inr ''data.json/x''
   \<and> files example_world ''data.json/x'' = Not_a_directory
   \<and> read_json_file example_json_load (PyPath ''data.json//x'') example_world
       = (Inr (PyDict []),
          logging_error (Log_unexpected ''data.json/x'' NotADirectoryError) example_world)"
proof -
  have p: "to_path (PyStr ''./nonexistent.json'') = Inr ''nonexistent.json''"
    by (simp add: path_str_examples)
  have f: "files example_world ''nonexistent.json'' = No_entry"
    by (simp add: example_world_def)
  have p': "to_path (PyPath ''data.json//x'') = Inr ''data.json/x''"
    by (simp add: path_str_examples)
  have f': "files example_world ''data.json/x'' = Not_a_directory"
    by (simp add: example_world_def)
  show ?thesis
    using p f p' f'
      missing_file_gives_empty_mapping [OF p, of example_world example_json_load]
      missing_file_gives_empty_mapping [OF p', of example_world example_json_load]
    by simp
qed

text \<open>
  A path that names a directory is not of this kind: it meets the clause for
  \<^verbatim>\<open>IsADirectoryError\<close>, with the same default and a diagnostic of its own.
\<close>

lemma directory_gives_empty_mapping:
  assumes "to_path file_path = Inr p" and "files w p = Directory"
  shows "read_json_file json_load file_path w
     = (Inr (PyDict []), logging_error (Log_is_directory p) w)"
proof -
  have "fst (read_json_try json_load p w) = Inl IsADirectoryError"
    using assms(2) by (simp add: read_json_try_cases)
  then show ?thesis
    using read_json_file_failure [OF assms(1)]
    by (simp add: read_handlers_def isinstance_exc_def)
qed

subsection \<open>Claim C7: the examples of \<^verbatim>\<open>parse_color\<close> and the clamping of tuples\<close>

lemma clamp_channel_int: "clamp_channel (PyInt c) = Inr (PyInt (max 0 (min 255 c)))"
  by (simp add: clamp_channel_def Let_def)

lemma parse_color_try_hex_red:
  "parse_color_try (PyStr ''#FF0000'') = Inr (RGB (PyInt 255) (PyInt 0) (PyInt 0))"
  by code_simp

lemma parse_color_try_blue:
  "parse_color_try (PyStr ''blue'') = Inr (RGB (PyInt 0) (PyInt 0) (PyInt 255))"
  by code_simp

lemma parse_color_try_not_a_color:
  "parse_color_try (PyStr ''not a color'') = Inl ValueError"
  by code_simp

text \<open>
  C7. \<^verbatim>\<open>parse_color("#FF0000")\<close> is \<^verbatim>\<open>(255, 0, 0)\<close>, \<^verbatim>\<open>parse_color("blue")\<close> is
  \<^verbatim>\<open>(0, 0, 255)\<close>, \<^verbatim>\<open>parse_color("not a color")\<close> is \<^verbatim>\<open>(0, 0, 0)\<close>,
  \<^verbatim>\<open>parse_color((300, -5, 10))\<close> is \<^verbatim>\<open>(255, 0, 10)\<close>, and every tuple of three
  \<^verbatim>\<open>int\<close>s yields each channel clamped into 0..255, not a failure.
\<close>

theorem parse_color_examples_and_clamping:
  "parse_color (PyStr ''#FF0000'') w = (Inr (RGB (PyInt 255) (PyInt 0) (PyInt 0)), w)
   \<and> parse_color (PyStr ''blue'') w = (Inr (RGB (PyInt 0) (PyInt 0) (PyInt 255)), w)
   \<and> parse_color (PyStr ''not a color'') w = (Inr (RGB (PyInt 0) (PyInt 0) (PyInt 0)), w)
   \<and> parse_color (PyTuple [PyInt 300, PyInt (- 5), PyInt 10]) w
       = (Inr (RGB (PyInt 255) (PyInt 0) (PyInt 10)), w)
   \<and> parse_color (PyTuple [PyInt r, PyInt g, PyInt b]) w
       = (Inr (RGB (PyInt (max 0 (min 255 r))) (PyInt (max 0 (min 255 g)))
                   (PyInt (max 0 (min 255 b)))), w)
   \<and> parse_color_try (PyTuple [PyInt r, PyInt g, PyInt b])
       = Inr (RGB (PyInt (max 0 (min 255 r))) (PyInt (max 0 (min 255 g)))
                  (PyInt (max 0 (min 255 b))))"
proof -
  have t: "parse_color_try (PyTuple [PyInt r', PyInt g', PyInt b'])
       = Inr (RGB (PyInt (max 0 (min 255 r'))) (PyInt (max 0 (min 255 g')))
                  (PyInt (max 0 (min 255 b'))))" for r' g' b'
    by (simp add: parse_color_try_def clamp_channel_int)
  show ?thesis
    using t [of r g b] t [of 300 "- 5" 10]
    by (simp add: parse_color_success parse_color_try_hex_red parse_color_try_blue
        parse_color_failure [OF parse_color_try_not_a_color])
qed

subsection \<open>Claim C8: the file is closed on every path\<close>

text \<open>
  C8. Whatever the argument, the file system and the decoder do, the file objects open
  after \<^verbatim>\<open>read_json_file\<close> returns or raises are those open before the call: the file
  the \<^verbatim>\<open>with\<close> statement opens is closed on success and on every failure path.
\<close>

theorem file_closed_on_every_path:
  "open_files (snd (read_json_file json_load file_path w)) = open_files w"
proof (cases "to_path file_path")
  case (Inl e)
  then show ?thesis
    by (simp add: read_json_file_def)
next
  case (Inr p)
  show ?thesis
    by (cases "fst (read_json_try json_load p w)")
       (simp_all add: read_json_file_failure [OF Inr] read_json_file_success [OF Inr]
          logging_error_def)
qed

subsection \<open>Claim C9: valid JSON that is not an object\<close>

text \<open>
  C9. When the file opens and the decoder returns a value \<^verbatim>\<open>v\<close> for its bytes,
  \<^verbatim>\<open>read_json_file\<close> returns \<^verbatim>\<open>v\<close> itself and logs nothing. So for a top-level value
  that is not an object (an array, a number) the result is that value, not a mapping and
  not an error: the result is a mapping only when the decoded value is one.
\<close>

theorem decoded_value_returned_unchanged:
  assumes "to_path file_path = Inr p" and "files w p = Regular bytes"
    and "json_load bytes = Inr v" and "\<not> is_mapping v"
  shows "read_json_file json_load file_path w = (Inr v, w)
     \<and> (\<forall>r. fst (read_json_file json_load file_path w) = Inr r \<longrightarrow> \<not> is_mapping r)"
proof -
  have "fst (read_json_try json_load p w) = Inr v"
    using assms(2,3) by (simp add: read_json_try_cases)
  then have "read_json_file json_load file_path w = (Inr v, w)"
    by (rule read_json_file_success [OF assms(1)])
  then show ?thesis
    using assms(4) by simp
qed

theorem decoded_value_returned_unchanged_witness:
  "to_path (PyStr ''data.json'') = Inr ''data.json''
   \<and> files example_world ''data.json'' = Regular ''[1, 2]''
   \<and> example_json_load ''[1, 2]'' = Inr (PyList [PyInt 1, PyInt 2])
   \<and> \<not> is_mapping (PyList [PyInt 1, PyInt 2])
   \<and> read_json_file example_json_load (PyStr ''data.json'') example_world
       = (Inr (PyList [PyInt 1, PyInt 2]), example_world)"
proof -
  have f: "files example_world ''data.json'' = Regular ''[1, 2]''"
    by (simp add: example_world_def)
  have j: "example_json_load ''[1, 2]'' = Inr (PyList [PyInt 1, PyInt 2])"
    by (simp add: example_json_load_def)
  have p: "to_path (PyStr ''data.json'') = Inr ''data.json''"
    by (simp add: path_str_examples)
  show ?thesis
    using p f j decoded_value_returned_unchanged
      [of "PyStr ''data.json''" "''data.json''" example_world "''[1, 2]''" example_json_load
          "PyList [PyInt 1, PyInt 2]"]
    by simp
qed

subsection \<open>Claim C10: the range of the channels\<close>

text \<open>
  What does hold: the channels of a tuple argument are clamped into 0..255, and the
  channels read from a string are \<^verbatim>\<open>int\<close>s between \<open>-15\<close> and 255 (a named colour or two
  hexadecimal digits give 0..255; a sign and one digit give \<open>-15\<close>..15).
\<close>

lemma clamp_channel_in_range:
  assumes "clamp_channel c = Inr v"
  shows "in_channel_range v"
proof (cases c)
  case (PyFloat f)
  then show ?thesis
    using assms by (cases f) (auto simp: clamp_channel_def Let_def split: if_splits)
qed (use assms in \<open>auto simp: clamp_channel_def Let_def split: if_splits\<close>)

lemma clamp_all_in_range:
  "clamp_all cs = Inr vs \<Longrightarrow> list_all in_channel_range vs"
  by (induction cs arbitrary: vs) (auto dest: clamp_channel_in_range split: sum.splits)

lemma parse_color_tuple_in_range:
  assumes "parse_color_try (PyTuple cs) = Inr c"
  shows "in_channel_range (red c) \<and> in_channel_range (green c) \<and> in_channel_range (blue c)"
  using assms
  by (auto simp: parse_color_try_def RGB_def dest!: clamp_all_in_range
           split: if_splits sum.splits list.splits)

lemma digit_value_range: "digit_value c = Some d \<Longrightarrow> 0 \<le> d \<and> d \<le> 15"
  by (auto simp: digit_value_def Let_def split: if_splits)

lemma scan_digits_bound:
  "scan_digits cs u acc = Some (v, rest) \<Longrightarrow> 0 \<le> acc \<Longrightarrow>
     0 \<le> v \<and> v + 1 \<le> (acc + 1) * 16 ^ length cs"
proof (induction cs arbitrary: u acc)
  case Nil
  then show ?case by (auto split: if_splits)
next
  case (Cons c cs)
  show ?case
  proof (cases "c = CHR ''_''")
    case True
    then have "scan_digits cs True acc = Some (v, rest)"
      using Cons.prems(1) by (auto split: if_splits)
    from Cons.IH [OF this Cons.prems(2)]
    have "0 \<le> v" and "v + 1 \<le> (acc + 1) * 16 ^ length cs" by simp_all
    moreover have "(acc + 1) * 16 ^ length cs \<le> (acc + 1) * 16 ^ length (c # cs)"
      using Cons.prems(2) by (simp add: mult_left_mono)
    ultimately show ?thesis by linarith
  next
    case False
    show ?thesis
    proof (cases "digit_value c")
      case None
      then have v: "v = acc"
        using False Cons.prems(1) by (auto split: if_splits)
      have "(1::int) \<le> 16 ^ length (c # cs)"
        by (rule one_le_power) simp
      then have "(acc + 1) * 1 \<le> (acc + 1) * 16 ^ length (c # cs)"
        using Cons.prems(2) by (intro mult_left_mono) simp_all
      then show ?thesis
        using Cons.prems(2) by (simp add: v)
    next
      case (Some d)
      then have s: "scan_digits cs False (16 * acc + d) = Some (v, rest)"
        using False Cons.prems(1) by simp
      have d: "0 \<le> d" "d \<le> 15" using digit_value_range [OF Some] by simp_all
      have "0 \<le> 16 * acc + d" using d Cons.prems(2) by simp
      from Cons.IH [OF s this]
      have "0 \<le> v" and v: "v + 1 \<le> (16 * acc + d + 1) * 16 ^ length cs" by simp_all
      have "(16 * acc + d + 1) * 16 ^ length cs \<le> (16 * (acc + 1)) * 16 ^ length cs"
        using d by (intro mult_right_mono) simp_all
      moreover have "(16 * (acc + 1)) * 16 ^ length cs = (acc + 1) * 16 ^ length (c # cs)"
        by simp
      ultimately show ?thesis using \<open>0 \<le> v\<close> v by linarith
    qed
  qed
qed


lemma strip_sign_length:
  "strip_sign s = (sg, t) \<Longrightarrow>
     (sg = 1 \<or> sg = - 1) \<and> length t \<le> length s \<and> (sg = - 1 \<longrightarrow> length t < length s)"
  by (cases s) (auto split: if_splits)

lemma strip_hex_prefix_length: "length (strip_hex_prefix t) \<le> length t"
  by (induction t rule: strip_hex_prefix.induct) (auto split: list.splits)

lemma int_base16_two_chars:
  assumes "int_base16 s = Inr v" and "length s \<le> 2"
  shows "- 15 \<le> v \<and> v \<le> 255"
proof -
  obtain sg t where st: "strip_sign (dropWhile is_space s) = (sg, t)"
    by (cases "strip_sign (dropWhile is_space s)")
  have "length (dropWhile is_space s) \<le> 2"
    using assms(2) length_dropWhile_le [of is_space s] by linarith
  with strip_sign_length [OF st]
  have sg: "sg = 1 \<or> sg = - 1" and t2: "length t \<le> 2" and tn: "sg = - 1 \<Longrightarrow> length t \<le> 1"
    by auto
  obtain c cs d u rest where p: "strip_hex_prefix t = c # cs" and d: "digit_value c = Some d"
    and sc: "scan_digits cs False d = Some (u, rest)" and v: "v = sg * u"
    using assms(1) st
    by (auto simp: int_base16_def split: list.splits option.splits if_splits)
  have len: "length cs + 1 \<le> length t"
    using strip_hex_prefix_length [of t] by (simp add: p)
  have d15: "0 \<le> d" "d \<le> 15" using digit_value_range [OF d] by simp_all
  have u: "0 \<le> u" "u + 1 \<le> (d + 1) * 16 ^ length cs"
    using scan_digits_bound [OF sc d15(1)] by simp_all
  show ?thesis
  proof (cases "sg = - 1")
    case True
    have "length cs = 0" using tn [OF True] len by linarith
    then have "u \<le> 15" using u(2) d15 by simp
    then show ?thesis using u(1) True by (simp add: v)
  next
    case False
    then have sg1: "sg = 1" using sg by simp
    have "length cs \<le> 1" using t2 len by simp
    then have "(16::int) ^ length cs \<le> 16 ^ 1"
      by (intro power_increasing) simp_all
    then have "(d + 1) * 16 ^ length cs \<le> 16 * 16"
      using d15 by (intro mult_mono) simp_all
    then show ?thesis using u by (simp add: v sg1)
  qed
qed

lemma parse_color_str_channels:
  assumes "parse_color_try (PyStr s) = Inr c"
  shows "\<exists>r g b. c = RGB (PyInt r) (PyInt g) (PyInt b)
           \<and> - 15 \<le> r \<and> r \<le> 255 \<and> - 15 \<le> g \<and> g \<le> 255 \<and> - 15 \<le> b \<and> b \<le> 255"
proof (cases "map_of COLOR_NAMES (str_lower (str_lstrip ''#'' s))")
  case (Some t)
  obtain r g b where t: "t = (r, g, b)" by (cases t)
  have "t \<in> snd ` set COLOR_NAMES"
    using Some by (metis image_eqI map_of_SomeD snd_conv)
  then have "0 \<le> r \<and> r \<le> 255 \<and> 0 \<le> g \<and> g \<le> 255 \<and> 0 \<le> b \<and> b \<le> 255"
    unfolding t by (auto simp: COLOR_NAMES_def)
  moreover have "c = RGB (PyInt r) (PyInt g) (PyInt b)"
    using assms Some by (simp add: parse_color_try_def t)
  ultimately show ?thesis
    by (intro exI [of _ r] exI [of _ g] exI [of _ b]) simp
next
  case None
  let ?c = "str_lower (str_lstrip ''#'' s)"
  from assms None obtain r g b where
    h: "int_base16 (take 2 ?c) = Inr r" "int_base16 (take 2 (drop 2 ?c)) = Inr g"
       "int_base16 (take 2 (drop 4 ?c)) = Inr b"
    and c: "c = RGB (PyInt r) (PyInt g) (PyInt b)"
    by (auto simp: parse_color_try_def Let_def split: if_splits sum.splits)
  have "- 15 \<le> r \<and> r \<le> 255" "- 15 \<le> g \<and> g \<le> 255" "- 15 \<le> b \<and> b \<le> 255"
    using h int_base16_two_chars [of "take 2 ?c" r]
      int_base16_two_chars [of "take 2 (drop 2 ?c)" g]
      int_base16_two_chars [of "take 2 (drop 4 ?c)" b]
    by simp_all
  then show ?thesis
    using c by (intro exI [of _ r] exI [of _ g] exI [of _ b]) simp
qed

lemma parse_color_try_signed_hex:
  "parse_color_try (PyStr ''-1-1-1'') = Inr (RGB (PyInt (- 1)) (PyInt (- 1)) (PyInt (- 1)))"
  by code_simp

text \<open>
  C10 does not hold of the code: \<^verbatim>\<open>int(s, 16)\<close> accepts a sign, so the six characters
  \<^verbatim>\<open>-1-1-1\<close> are read as three channels \<^verbatim>\<open>-1\<close>, and \<^verbatim>\<open>parse_color("-1-1-1")\<close> returns
  \<^verbatim>\<open>RGB(-1, -1, -1)\<close>, outside 0..255, although the docstring promises values within
  the valid range.
\<close>

theorem parse_color_signed_hex_out_of_range:
  "fst (parse_color (PyStr ''-1-1-1'') example_world)
     = Inr (RGB (PyInt (- 1)) (PyInt (- 1)) (PyInt (- 1)))
   \<and> \<not> in_channel_range (PyInt (- 1))"
  by (simp add: parse_color_success parse_color_try_signed_hex)

end
